theory Spec2Isabelle
  imports Main "HOL-Library.AList" "HOL-Library.Word"
begin

section \<open>Values, errors and Go maps\<close>

text \<open>
  The adapter passes every item around as \<^verbatim>\<open>map[string]interface{}\<close>. The dynamic values
  that occur are collected in one datatype. \<open>'f\<close> stands for Go's \<^verbatim>\<open>float64\<close>: its arithmetic
  is never fixed here, the few operations the code uses are parameters.

  An error keeps the first argument of \<^verbatim>\<open>errors.New\<close> (the DynamoDB error name) or the
  message of \<^verbatim>\<open>fmt.Errorf\<close>.
\<close>

datatype error = Error string

fun errMsg :: "error \<Rightarrow> string" where
  "errMsg (Error s) = s"

datatype 'f val =
    VNil
  | VBool bool
  | VStr string
  | VFloat 'f
  | VInt int
  | VBytes string
  | VStrs "string list"
  | VFloats "'f list"
  | VByteArrs "string list"
  | VList "'f val list"
  | VMap "(string \<times> 'f val) list"
  | VErr error

text \<open>
  A Go map is an association list read with \<^const>\<open>map_of\<close>, written with
  \<^const>\<open>AList.update\<close> and \<^const>\<open>AList.delete\<close>. \<^verbatim>\<open>len(m) == 0\<close> is \<open>m = []\<close>.
  Where the code ranges over a map, the order of the list is the order of the iteration
  (Go leaves it unspecified, any order can occur).
\<close>

type_synonym 'f smap = "(string \<times> 'f val) list"

type_synonym ddl = "(string \<times> string) list"

text \<open>Reading a key that may be absent gives nil: \<^verbatim>\<open>m[k]\<close>.\<close>

definition valueAt :: "'f smap \<Rightarrow> string \<Rightarrow> 'f val" where
  "valueAt m k = (case map_of m k of None \<Rightarrow> VNil | Some v \<Rightarrow> v)"

section \<open>Strings\<close>

definition HasPrefix :: "string \<Rightarrow> string \<Rightarrow> bool" where
  "HasPrefix s p = (take (length p) s = p)"

definition HasSuffix :: "string \<Rightarrow> string \<Rightarrow> bool" where
  "HasSuffix s p = (length p \<le> length s \<and> drop (length s - length p) s = p)"

fun Contains :: "string \<Rightarrow> string \<Rightarrow> bool" where
  "Contains [] sub = (sub = [])"
| "Contains (c # cs) sub = (HasPrefix (c # cs) sub \<or> Contains cs sub)"

definition is_word :: "char \<Rightarrow> bool" where
  "is_word c = (c \<in> set ''abcdefghijklmnopqrstuvwxyzABCDEFGHIJKLMNOPQRSTUVWXYZ0123456789_'')"

definition is_b64 :: "char \<Rightarrow> bool" where
  "is_b64 c = (c \<in> set ''abcdefghijklmnopqrstuvwxyzABCDEFGHIJKLMNOPQRSTUVWXYZ0123456789+/'')"

text \<open>
  \<^verbatim>\<open>base64Regexp = ^([A-Za-z0-9+/]{4})*([A-Za-z0-9+/]{3}=|[A-Za-z0-9+/]{2}==)?$\<close>:
  groups of four alphabet characters, the last group possibly padded.
\<close>

fun base64Regexp_MatchString :: "string \<Rightarrow> bool" where
  "base64Regexp_MatchString [] = True"
| "base64Regexp_MatchString [a, b, c, d] =
     (is_b64 a \<and> is_b64 b \<and>
      ((is_b64 c \<and> (is_b64 d \<or> d = CHR ''='')) \<or> (c = CHR ''='' \<and> d = CHR ''='')))"
| "base64Regexp_MatchString (a # b # c # d # rest) =
     (is_b64 a \<and> is_b64 b \<and> is_b64 c \<and> is_b64 d \<and> base64Regexp_MatchString rest)"
| "base64Regexp_MatchString _ = False"

text \<open>
  \<^verbatim>\<open>sizeRegex = size\((\w+)\)\<close>, \<^verbatim>\<open>FindStringSubmatch\<close>: the leftmost place where
  \<^verbatim>\<open>size(\<close> is followed by a non-empty run of word characters and \<^verbatim>\<open>)\<close>. The run is
  the submatch; \<^verbatim>\<open>len(matches) == 2\<close> is \<open>Some\<close>.
\<close>

definition sizeRegex_at :: "string \<Rightarrow> string option" where
  "sizeRegex_at s =
     (if HasPrefix s ''size('' then
        (let rest = drop 5 s; w = takeWhile is_word rest in
         if w \<noteq> [] \<and> HasPrefix (dropWhile is_word rest) '')'' then Some w else None)
      else None)"

fun sizeRegex_FindStringSubmatch :: "string \<Rightarrow> string option" where
  "sizeRegex_FindStringSubmatch [] = None"
| "sizeRegex_FindStringSubmatch (c # cs) =
     (case sizeRegex_at (c # cs) of
        Some w \<Rightarrow> Some w
      | None \<Rightarrow> sizeRegex_FindStringSubmatch cs)"

text \<open>
  The functions of package \<^verbatim>\<open>strings\<close> and \<^verbatim>\<open>strconv\<close> that the planner calls, on bytes.

  \<^verbatim>\<open>strings.TrimSpace\<close> removes the white space of Unicode (\<^verbatim>\<open>unicode.IsSpace\<close>) at both
  ends of a string in UTF-8: the six ASCII characters, U+0085 and U+00A0 (two bytes each),
  and U+1680, U+2000 to U+200A, U+2028, U+2029, U+202F, U+205F and U+3000 (three bytes
  each). A byte that starts no such encoding ends the trimming. \<open>TrimRevSpace\<close> works on
  the reversed string, so that it trims the right end.
\<close>

definition is_space :: "char \<Rightarrow> bool" where
  "is_space c = (c \<in> set [CHR 0x09, CHR 0x0A, CHR 0x0B, CHR 0x0C, CHR 0x0D, CHR '' ''])"

definition is_space2 :: "char \<Rightarrow> char \<Rightarrow> bool" where
  "is_space2 a b = (a = CHR 0xC2 \<and> (b = CHR 0x85 \<or> b = CHR 0xA0))"

definition is_space3 :: "char \<Rightarrow> char \<Rightarrow> char \<Rightarrow> bool" where
  "is_space3 a b c =
     ((a = CHR 0xE1 \<and> b = CHR 0x9A \<and> c = CHR 0x80)
      \<or> (a = CHR 0xE2 \<and> b = CHR 0x80 \<and>
          c \<in> set [CHR 0x80, CHR 0x81, CHR 0x82, CHR 0x83, CHR 0x84, CHR 0x85, CHR 0x86, CHR 0x87,
                    CHR 0x88, CHR 0x89, CHR 0x8A, CHR 0xA8, CHR 0xA9, CHR 0xAF])
      \<or> (a = CHR 0xE2 \<and> b = CHR 0x81 \<and> c = CHR 0x9F)
      \<or> (a = CHR 0xE3 \<and> b = CHR 0x80 \<and> c = CHR 0x80))"

fun TrimLeftSpace :: "string \<Rightarrow> string" where
  "TrimLeftSpace (a # b # c # r) =
     (if is_space a then TrimLeftSpace (b # c # r)
      else if is_space2 a b then TrimLeftSpace (c # r)
      else if is_space3 a b c then TrimLeftSpace r
      else a # b # c # r)"
| "TrimLeftSpace [a, b] =
     (if is_space a then TrimLeftSpace [b] else if is_space2 a b then [] else [a, b])"
| "TrimLeftSpace [a] = (if is_space a then [] else [a])"
| "TrimLeftSpace [] = []"

fun TrimRevSpace :: "string \<Rightarrow> string" where
  "TrimRevSpace (c # b # a # r) =
     (if is_space c then TrimRevSpace (b # a # r)
      else if is_space2 b c then TrimRevSpace (a # r)
      else if is_space3 a b c then TrimRevSpace r
      else c # b # a # r)"
| "TrimRevSpace [c, b] =
     (if is_space c then TrimRevSpace [b] else if is_space2 b c then [] else [c, b])"
| "TrimRevSpace [c] = (if is_space c then [] else [c])"
| "TrimRevSpace [] = []"

definition TrimSpace :: "string \<Rightarrow> string" where
  "TrimSpace s = rev (TrimRevSpace (rev (TrimLeftSpace s)))"

definition Trim :: "string \<Rightarrow> char \<Rightarrow> string" where
  "Trim s c = rev (dropWhile (\<lambda>x. x = c) (rev (dropWhile (\<lambda>x. x = c) s)))"

fun Split_from :: "string \<Rightarrow> string \<Rightarrow> string \<Rightarrow> string list" where
  "Split_from sep acc [] = [acc]"
| "Split_from sep acc (c # cs) =
     (if sep \<noteq> [] \<and> HasPrefix (c # cs) sep
      then acc # Split_from sep [] (drop (length sep - 1) cs)
      else Split_from sep (acc @ [c]) cs)"

definition Split :: "string \<Rightarrow> string \<Rightarrow> string list" where
  "Split s sep = Split_from sep [] s"

fun Join :: "string list \<Rightarrow> string \<Rightarrow> string" where
  "Join [] sep = []"
| "Join [x] sep = x"
| "Join (x # y # ys) sep = x @ sep @ Join (y # ys) sep"

text \<open>
  \<^verbatim>\<open>utf8.DecodeRuneInString\<close>, the width only: the number of bytes of the UTF-8 sequence
  at the head of a non-empty string, 1 when the head starts no valid sequence.
  \<^verbatim>\<open>strings.ReplaceAll\<close> with an empty \<^verbatim>\<open>old\<close> puts \<^verbatim>\<open>new\<close> before each such sequence and
  at the end.
\<close>

definition is_cont :: "char \<Rightarrow> bool" where
  "is_cont c = (0x80 \<le> (of_char c :: nat) \<and> (of_char c :: nat) \<le> 0xBF)"

definition runeWidth :: "string \<Rightarrow> nat" where
  "runeWidth s =
     (case s of
        [] \<Rightarrow> 0
      | a # r \<Rightarrow>
          (let x = (of_char a :: nat);
               lo = (if x = 0xE0 then 0xA0 else if x = 0xF0 then 0x90 else 0x80);
               hi = (if x = 0xED then 0x9F else if x = 0xF4 then 0x8F else 0xBF);
               sz = (if 0xC2 \<le> x \<and> x \<le> 0xDF then 2
                     else if 0xE0 \<le> x \<and> x \<le> 0xEF then 3
                     else if 0xF0 \<le> x \<and> x \<le> 0xF4 then 4 else 1)
           in if sz = 1 \<or> length s < sz then 1
              else if (of_char (s ! 1) :: nat) < lo \<or> hi < (of_char (s ! 1) :: nat) then 1
              else if \<not> list_all is_cont (take (sz - 2) (drop 2 s)) then 1
              else sz))"

fun ReplaceAll :: "string \<Rightarrow> string \<Rightarrow> string \<Rightarrow> string" where
  "ReplaceAll [] old new = (if old = [] then new else [])"
| "ReplaceAll (c # cs) old new =
     (if old = [] then
        new @ take (runeWidth (c # cs)) (c # cs) @
          ReplaceAll (drop (runeWidth (c # cs) - 1) cs) old new
      else if HasPrefix (c # cs) old then new @ ReplaceAll (drop (length old - 1) cs) old new
      else c # ReplaceAll cs old new)"

fun natDigits :: "nat \<Rightarrow> string" where
  "natDigits n =
     (if n < 10 then [''0123456789'' ! n]
      else natDigits (n div 10) @ [''0123456789'' ! (n mod 10)])"

declare natDigits.simps [simp del]

definition FormatInt :: "int \<Rightarrow> string" where
  "FormatInt i = (if i < 0 then CHR ''-'' # natDigits (nat (- i)) else natDigits (nat i))"

text \<open>\<^verbatim>\<open>hash/fnv\<close>, \<^verbatim>\<open>New64a\<close>: FNV-1a on 64 bits.\<close>

definition fnv64a :: "string \<Rightarrow> 64 word" where
  "fnv64a s = foldl (\<lambda>h c. (xor h (of_char c)) * 1099511628211) 14695981039346656037 s"

text \<open>
  \<^verbatim>\<open>regexPattern = ^[a-zA-Z_][a-zA-Z0-9_.]*(\.[a-zA-Z_][a-zA-Z0-9_.]*)+\s*=\s*@\w+$\<close>.
  The path is the longest run of path characters at the start: it begins with a letter or
  an underscore and holds a dot followed by a letter or an underscore. Then come blanks,
  \<^verbatim>\<open>=\<close>, blanks, \<^verbatim>\<open>@\<close> and a non-empty word up to the end.
\<close>

definition is_letter :: "char \<Rightarrow> bool" where
  "is_letter c = (c \<in> set ''abcdefghijklmnopqrstuvwxyzABCDEFGHIJKLMNOPQRSTUVWXYZ_'')"

definition is_pathchar :: "char \<Rightarrow> bool" where
  "is_pathchar c = (is_word c \<or> c = CHR ''.'')"

definition is_respace :: "char \<Rightarrow> bool" where
  "is_respace c = (c \<in> set [CHR 0x09, CHR 0x0A, CHR 0x0C, CHR 0x0D, CHR '' ''])"

fun has_dot_alpha :: "string \<Rightarrow> bool" where
  "has_dot_alpha (a # b # cs) = ((a = CHR ''.'' \<and> is_letter b) \<or> has_dot_alpha (b # cs))"
| "has_dot_alpha _ = False"

definition re_MatchString :: "string \<Rightarrow> bool" where
  "re_MatchString s =
     (let path = takeWhile is_pathchar s;
          r1 = dropWhile is_respace (dropWhile is_pathchar s)
      in (case path of [] \<Rightarrow> False | c # _ \<Rightarrow> is_letter c) \<and> has_dot_alpha path \<and>
         (case r1 of
            [] \<Rightarrow> False
          | e # r2 \<Rightarrow>
              e = CHR ''='' \<and>
              (case dropWhile is_respace r2 of
                 [] \<Rightarrow> False
               | a # w \<Rightarrow> a = CHR ''@'' \<and> w \<noteq> [] \<and> list_all is_word w)))"

section \<open>Backend rows\<close>

text \<open>
  A backend row is the list of its columns, each a name and a typed cell; a cell of any
  type can be NULL. \<^verbatim>\<open>r.Column(idx, &s)\<close> decodes the cell into the Go type of \<open>s\<close> and
  fails when the cell has another type, leaving \<open>s\<close> at its zero value. A JSON cell holds
  the decoded document (the same dynamic values).
\<close>

datatype 'f cell =
    CString "string option"
  | CBytes "string option"
  | CFloat "'f option"
  | CBool "bool option"
  | CStringArr "string option list option"
  | CBytesArr "string list option"
  | CFloatArr "'f option list option"
  | CJSON "'f val option"
  | CInt64 "64 word option"

type_synonym 'f row = "(string \<times> 'f cell) list"

definition mismatch :: error where
  "mismatch = Error ''type mismatch''"

fun Column_NullString :: "'f row \<Rightarrow> nat \<Rightarrow> string option \<times> error option" where
  "Column_NullString r idx =
     (if idx < length r then
        (case snd (r ! idx) of CString s \<Rightarrow> (s, None) | _ \<Rightarrow> (None, Some mismatch))
      else (None, Some (Error ''index out of range'')))"

fun Column_Bytes :: "'f row \<Rightarrow> nat \<Rightarrow> string \<times> error option" where
  "Column_Bytes r idx =
     (if idx < length r then
        (case snd (r ! idx) of
           CBytes None \<Rightarrow> ([], None)
         | CBytes (Some b) \<Rightarrow> (b, None)
         | _ \<Rightarrow> ([], Some mismatch))
      else ([], Some (Error ''index out of range'')))"

fun Column_NullFloat64 :: "'f row \<Rightarrow> nat \<Rightarrow> 'f option \<times> error option" where
  "Column_NullFloat64 r idx =
     (if idx < length r then
        (case snd (r ! idx) of CFloat x \<Rightarrow> (x, None) | _ \<Rightarrow> (None, Some mismatch))
      else (None, Some (Error ''index out of range'')))"

fun Column_NullBool :: "'f row \<Rightarrow> nat \<Rightarrow> bool option \<times> error option" where
  "Column_NullBool r idx =
     (if idx < length r then
        (case snd (r ! idx) of CBool x \<Rightarrow> (x, None) | _ \<Rightarrow> (None, Some mismatch))
      else (None, Some (Error ''index out of range'')))"

fun Column_NullStrings :: "'f row \<Rightarrow> nat \<Rightarrow> string option list \<times> error option" where
  "Column_NullStrings r idx =
     (if idx < length r then
        (case snd (r ! idx) of
           CStringArr None \<Rightarrow> ([], None)
         | CStringArr (Some xs) \<Rightarrow> (xs, None)
         | _ \<Rightarrow> ([], Some mismatch))
      else ([], Some (Error ''index out of range'')))"

fun Column_ByteArrs :: "'f row \<Rightarrow> nat \<Rightarrow> string list \<times> error option" where
  "Column_ByteArrs r idx =
     (if idx < length r then
        (case snd (r ! idx) of
           CBytesArr None \<Rightarrow> ([], None)
         | CBytesArr (Some xs) \<Rightarrow> (xs, None)
         | _ \<Rightarrow> ([], Some mismatch))
      else ([], Some (Error ''index out of range'')))"

fun Column_NullFloats :: "'f row \<Rightarrow> nat \<Rightarrow> 'f option list \<times> error option" where
  "Column_NullFloats r idx =
     (if idx < length r then
        (case snd (r ! idx) of
           CFloatArr None \<Rightarrow> ([], None)
         | CFloatArr (Some xs) \<Rightarrow> (xs, None)
         | _ \<Rightarrow> ([], Some mismatch))
      else ([], Some (Error ''index out of range'')))"

fun Column_NullJSON :: "'f row \<Rightarrow> nat \<Rightarrow> 'f val option \<times> error option" where
  "Column_NullJSON r idx =
     (if idx < length r then
        (case snd (r ! idx) of CJSON x \<Rightarrow> (x, None) | _ \<Rightarrow> (None, Some mismatch))
      else (None, Some (Error ''index out of range'')))"

text \<open>
  The test every column parser makes after decoding:
  \<^verbatim>\<open>err != nil && !strings.Contains(err.Error(), "ambiguous column name")\<close>.
\<close>

definition fatal :: "error option \<Rightarrow> bool" where
  "fatal err = (case err of None \<Rightarrow> False
                | Some e \<Rightarrow> \<not> Contains (errMsg e) ''ambiguous column name'')"

section \<open>Code outside the files at hand\<close>

text \<open>
  The helpers of package \<^verbatim>\<open>utils\<close>, the JSON and base64 codecs of the Go library and the
  process-wide tables are parameters, gathered in one record.
\<close>

record 'f codec =
  IsValidBase64 :: "string \<Rightarrow> bool"
  ParseBytes :: "'f row \<Rightarrow> nat \<Rightarrow> string \<Rightarrow> 'f smap \<times> error option"
  jsonUnmarshal :: "string \<Rightarrow> 'f val \<times> error option"
  jsonMarshal :: "'f val \<Rightarrow> string \<times> error option"
  jsonMarshalIndent :: "'f val \<Rightarrow> string \<times> error option"
  base64Decode :: "string \<Rightarrow> string \<times> error option"
  ParseNestedJSON :: "'f val \<Rightarrow> 'f val"
  parseDynamoDBJSON :: "'f val \<Rightarrow> 'f val"

section \<open>Decoding a row (storage: parseRow and its column parsers)\<close>

definition parseStringColumn ::
  "'f codec \<Rightarrow> 'f row \<Rightarrow> nat \<Rightarrow> string \<Rightarrow> 'f smap \<Rightarrow> 'f smap \<times> error option" where
  "parseStringColumn cd r idx col row =
     (case Column_NullString r idx of (s, err) \<Rightarrow>
        if fatal err then (row, err)
        else (case s of
                None \<Rightarrow> (AList.update col VNil row, None)
              | Some StringVal \<Rightarrow>
                  if HasSuffix StringVal ''='' \<and> IsValidBase64 cd StringVal then
                    (case ParseBytes cd r idx col of (res, err') \<Rightarrow>
                       (case err' of
                          Some e \<Rightarrow> (AList.update col (VStr StringVal) row, Some e)
                        | None \<Rightarrow>
                            (AList.update col
                               (case map_of res col of None \<Rightarrow> VNil | Some v \<Rightarrow> v) row, None)))
                  else (AList.update col (VStr StringVal) row, None)))"

definition decodeB64JSON :: "'f codec \<Rightarrow> 'f val \<Rightarrow> 'f val option" where
  "decodeB64JSON cd v =
     (case v of
        VStr val \<Rightarrow>
          if base64Regexp_MatchString val then
            (case base64Decode cd val of
               (ba, None) \<Rightarrow>
                 (case jsonUnmarshal cd ba of (sample, None) \<Rightarrow> Some sample | _ \<Rightarrow> None)
             | _ \<Rightarrow> None)
          else None
      | _ \<Rightarrow> None)"

definition processDecodedData :: "'f codec \<Rightarrow> 'f val \<Rightarrow> 'f val" where
  "processDecodedData cd m =
     (case decodeB64JSON cd m of
        Some sample \<Rightarrow> sample
      | None \<Rightarrow>
          (case m of
             VMap mp \<Rightarrow>
               VMap (map (\<lambda>(k, v). (k, case decodeB64JSON cd v of Some s \<Rightarrow> s | None \<Rightarrow> v)) mp)
           | _ \<Rightarrow> m))"

definition parseBytesColumn ::
  "'f codec \<Rightarrow> 'f row \<Rightarrow> nat \<Rightarrow> string \<Rightarrow> 'f smap \<Rightarrow> 'f smap \<times> error option" where
  "parseBytesColumn cd r idx col row =
     (case Column_Bytes r idx of (s, err) \<Rightarrow>
        if fatal err then (row, err)
        else if length s > 0 then
          (case jsonUnmarshal cd s of
             (m, Some e) \<Rightarrow> (AList.update col (VStr s) row, None)
           | (m, None) \<Rightarrow> (AList.update col (processDecodedData cd m) row, None))
        else (row, None))"

definition parseNumericColumn ::
  "'f row \<Rightarrow> nat \<Rightarrow> string \<Rightarrow> 'f smap \<Rightarrow> 'f smap \<times> error option" where
  "parseNumericColumn r idx col row =
     (case Column_NullFloat64 r idx of (s, err) \<Rightarrow>
        if fatal err then (row, err)
        else (case s of
                None \<Rightarrow> (AList.update col VNil row, None)
              | Some x \<Rightarrow> (AList.update col (VFloat x) row, None)))"

definition parseBoolColumn ::
  "'f row \<Rightarrow> nat \<Rightarrow> string \<Rightarrow> 'f smap \<Rightarrow> 'f smap \<times> error option" where
  "parseBoolColumn r idx col row =
     (case Column_NullBool r idx of (s, err) \<Rightarrow>
        if fatal err then (row, err)
        else (case s of
                None \<Rightarrow> (AList.update col VNil row, None)
              | Some b \<Rightarrow> (AList.update col (VBool b) row, None)))"

definition parseStringArrayColumn ::
  "'f row \<Rightarrow> nat \<Rightarrow> string \<Rightarrow> 'f smap \<Rightarrow> 'f smap \<times> error option" where
  "parseStringArrayColumn r idx col row =
     (case Column_NullStrings r idx of (s, err) \<Rightarrow>
        if fatal err then (row, err)
        else if length s > 0 then
          (AList.update col (VStrs (map (\<lambda>v. case v of None \<Rightarrow> [] | Some x \<Rightarrow> x) s)) row, None)
        else (row, None))"

definition parseByteArrayColumn ::
  "'f row \<Rightarrow> nat \<Rightarrow> string \<Rightarrow> 'f smap \<Rightarrow> 'f smap \<times> error option" where
  "parseByteArrayColumn r idx col row =
     (case Column_ByteArrs r idx of (b, err) \<Rightarrow>
        if fatal err then (row, err)
        else if length b > 0 then (AList.update col (VByteArrs b) row, None)
        else (row, None))"

definition parseNumberArrayColumn ::
  "'f row \<Rightarrow> nat \<Rightarrow> string \<Rightarrow> 'f smap \<Rightarrow> 'f smap \<times> error option" where
  "parseNumberArrayColumn r idx col row =
     (case Column_NullFloats r idx of (nums, err) \<Rightarrow>
        if fatal err then (row, err)
        else if length nums > 0 then
          (AList.update col (VFloats (concat (map (\<lambda>v. case v of None \<Rightarrow> [] | Some x \<Rightarrow> [x]) nums))) row,
           None)
        else (row, None))"

definition parseNullColumn ::
  "'f row \<Rightarrow> nat \<Rightarrow> string \<Rightarrow> 'f smap \<Rightarrow> 'f smap \<times> error option" where
  "parseNullColumn r idx col row =
     (case Column_NullString r idx of (s, err) \<Rightarrow>
        if fatal err then (row, err)
        else (case s of
                None \<Rightarrow> (AList.update col VNil row, None)
              | Some x \<Rightarrow> (row, None)))"

definition parseListColumn ::
  "'f codec \<Rightarrow> 'f row \<Rightarrow> nat \<Rightarrow> string \<Rightarrow> 'f smap \<Rightarrow> 'f smap \<times> error option" where
  "parseListColumn cd r idx col row =
     (case Column_NullJSON r idx of (jsonValue, err) \<Rightarrow>
        if fatal err then (row, err)
        else (case jsonValue of
                None \<Rightarrow> (row, None)
              | Some v \<Rightarrow> (AList.update col (parseDynamoDBJSON cd v) row, None)))"

text \<open>
  \<^verbatim>\<open>parseMapColumn\<close> prints the JSON cell and parses the text again
  (\<^verbatim>\<open>json.Unmarshal([]byte(s.String()), &decodedData)\<close>).
\<close>

definition parseMapColumn ::
  "'f codec \<Rightarrow> 'f row \<Rightarrow> nat \<Rightarrow> string \<Rightarrow> 'f smap \<Rightarrow> 'f smap \<Rightarrow>
   ('f smap \<times> 'f smap) \<times> error option" where
  "parseMapColumn cd r idx col row spannerRow =
     (case Column_NullJSON r idx of (s, err) \<Rightarrow>
        (case err of
           Some e \<Rightarrow> ((row, spannerRow), Some (Error ''ValidationException''))
         | None \<Rightarrow>
             (case s of
                None \<Rightarrow> ((row, spannerRow), None)
              | Some v \<Rightarrow>
                  (case jsonUnmarshal cd (fst (jsonMarshal cd v)) of
                     (decodedData, Some e) \<Rightarrow> ((row, spannerRow), Some (Error ''JSONParseException''))
                   | (decodedData, None) \<Rightarrow>
                       ((AList.update col (ParseNestedJSON cd decodedData) row,
                         AList.update col decodedData spannerRow), None)))))"

text \<open>
  The loop of \<^verbatim>\<open>parseRow\<close> over \<^verbatim>\<open>r.ColumnNames()\<close>, at position \<open>i\<close> with the columns
  \<open>cols\<close> still to visit.
\<close>

fun parseRow_loop ::
  "'f codec \<Rightarrow> 'f row \<Rightarrow> ddl \<Rightarrow> nat \<Rightarrow> string list \<Rightarrow> 'f smap \<Rightarrow> 'f smap \<Rightarrow>
   error + ('f smap \<times> 'f smap)" where
  "parseRow_loop cd r colDDL i [] singleRow spannerRow = Inr (singleRow, spannerRow)"
| "parseRow_loop cd r colDDL i (k # cols) singleRow spannerRow =
     (if k = [] \<or> k = ''commit_timestamp'' then
        parseRow_loop cd r colDDL (Suc i) cols singleRow spannerRow
      else
        (case map_of colDDL k of
           None \<Rightarrow> Inl (Error ''ResourceNotFoundException'')
         | Some v \<Rightarrow>
             if v = ''M'' then
               (case parseMapColumn cd r i k singleRow spannerRow of
                  (_, Some e) \<Rightarrow> Inl (Error ''ValidationException'')
                | ((row', srow'), None) \<Rightarrow> parseRow_loop cd r colDDL (Suc i) cols row' srow')
             else if v \<in> set [''S'', ''B'', ''N'', ''BOOL'', ''SS'', ''BS'', ''NS'', ''NULL'', ''L''] then
               (case (if v = ''S'' then parseStringColumn cd r i k singleRow
                      else if v = ''B'' then parseBytesColumn cd r i k singleRow
                      else if v = ''N'' then parseNumericColumn r i k singleRow
                      else if v = ''BOOL'' then parseBoolColumn r i k singleRow
                      else if v = ''SS'' then parseStringArrayColumn r i k singleRow
                      else if v = ''BS'' then parseByteArrayColumn r i k singleRow
                      else if v = ''NS'' then parseNumberArrayColumn r i k singleRow
                      else if v = ''NULL'' then parseNullColumn r i k singleRow
                      else parseListColumn cd r i k singleRow) of
                  (_, Some e) \<Rightarrow> Inl (Error ''ValidationException'')
                | (row', None) \<Rightarrow> parseRow_loop cd r colDDL (Suc i) cols row' spannerRow)
             else Inl (Error ''TypeNotFound'')))"

text \<open>
  \<^verbatim>\<open>parseRow\<close> returns \<^verbatim>\<open>(singleRow, spannerRow, err)\<close>; for a nil row the second
  component is the nil map (\<open>None\<close>).
\<close>

definition parseRow ::
  "'f codec \<Rightarrow> 'f row option \<Rightarrow> ddl \<Rightarrow> error + ('f smap \<times> 'f smap option)" where
  "parseRow cd r colDDL =
     (case r of
        None \<Rightarrow> Inr ([], None)
      | Some row \<Rightarrow>
          (case parseRow_loop cd row colDDL 0 (map fst row) [] [] of
             Inl e \<Rightarrow> Inl e
           | Inr (singleRow, spannerRow) \<Rightarrow> Inr (singleRow, Some spannerRow)))"

section \<open>Evaluating one condition function on a row snapshot\<close>

definition evaluateStatementFromRowMap :: "string \<Rightarrow> string \<Rightarrow> 'f smap \<Rightarrow> 'f val" where
  "evaluateStatementFromRowMap conditionalExpression colName rowMap =
     (if HasPrefix conditionalExpression ''attribute_not_exists''
         \<or> HasPrefix conditionalExpression ''if_not_exists'' then
        (if rowMap = [] then VBool True
         else VBool (map_of rowMap colName = None))
      else if HasPrefix conditionalExpression ''attribute_exists''
         \<or> HasPrefix conditionalExpression ''if_exists'' then
        (if rowMap = [] then VBool False
         else VBool (map_of rowMap colName \<noteq> None))
      else if HasPrefix conditionalExpression ''size('' then
        (case sizeRegex_FindStringSubmatch conditionalExpression of
           Some attributeName \<Rightarrow>
             (case map_of rowMap attributeName of
                None \<Rightarrow> VErr (Error ''Attribute not found in row'')
              | Some (VList v) \<Rightarrow> VInt (int (length v))
              | Some _ \<Rightarrow> VErr (Error ''size() function is only valid for list attributes''))
         | None \<Rightarrow> VErr (Error ''Invalid size() function syntax''))
      else (case map_of rowMap conditionalExpression of None \<Rightarrow> VNil | Some v \<Rightarrow> v))"

section \<open>Configuration, compiled conditions and the backend\<close>

datatype TableConfig = TableConfig
  (PartitionKey: string)
  (SortKey: string)
  (Indices: "(string \<times> TableConfig) list")
  (ActualTable: string)

text \<open>
  \<^verbatim>\<open>models.Eval\<close>. \<open>Cond\<close> is the compiled program, an opaque handle that only
  \<^verbatim>\<open>utils.EvaluateExpression\<close> reads. \<open>Cols\<close> is a slice: \<open>ColsCap\<close> is \<^verbatim>\<open>cap(e.Cols)\<close>, which
  decides whether \<^verbatim>\<open>append(e.Cols, ...)\<close> writes into the array of \<^verbatim>\<open>e.Cols\<close> or into a new
  one (a capacity below the length counts as the length).
\<close>

record 'f Eval =
  Cond :: string
  Attributes :: "string list"
  Cols :: "string list"
  ColsCap :: nat
  Tokens :: "string list"
  ValueMap :: "'f smap"

record 'f UpdateExpressionCondition =
  Field :: "string list"
  Value :: "string list"
  Condition :: "string list"
  ActionVal :: string
  AddValues :: "(string \<times> 'f) list"

text \<open>\<^verbatim>\<open>models.Query\<close> and \<^verbatim>\<open>models.ScanMeta\<close> (the fields the services read) and \<^verbatim>\<open>spanner.Statement\<close>.\<close>

record 'f Query =
  TableName :: string
  IndexName :: string
  OnlyCount :: bool
  Limit :: "64 word"
  SortAscending :: bool
  StartFrom :: "'f smap option"
  ProjectionExpression :: string
  ExpressionAttributeNames :: "(string \<times> string) list"
  FilterExp :: string
  RangeExp :: string
  RangeValMap :: "'f smap"

record 'f ScanMeta =
  scan_TableName :: string
  scan_IndexName :: string
  scan_OnlyCount :: bool
  scan_Limit :: "64 word"
  scan_StartFrom :: "'f smap option"
  scan_FilterExpression :: string
  scan_ProjectionExpression :: string
  scan_ExpressionAttributeNames :: "(string \<times> string) list"
  scan_ExpressionAttributeMap :: "'f smap"

record 'f Statement =
  SQL :: string
  Params :: "'f smap"

datatype 'f mutation =
    spanner_InsertOrUpdateMap string "'f smap"
  | spanner_Delete string "'f val list"

record 'f UpdateAttr =
  upd_TableName :: string
  upd_PrimaryKeyMap :: "'f smap"
  upd_ConditionExpression :: string
  upd_ExpressionAttributeMap :: "'f smap"

text \<open>
  The environment of the storage layer: the process-wide tables of package \<^verbatim>\<open>models\<close>,
  the functions of the packages \<^verbatim>\<open>config\<close>, \<^verbatim>\<open>utils\<close> and \<^verbatim>\<open>errors\<close> that are not among
  the files at hand, the two float operations the code uses, and the backend client:
  \<open>ReadRow\<close> reads one row of a database state \<open>'db\<close> (a nil row and an error when there
  is none), \<open>Read\<close> yields the rows of a key set as the iterator hands them over (pointers
  to rows) and then the end of the iteration or an error, \<open>Commit\<close> applies the buffered
  mutations of a transaction, \<open>RunQuery\<close> yields the rows of a statement, in order, and
  then the end of the iteration or an error.
  \<open>ParseBeginsWith\<close> is the third result of \<^verbatim>\<open>utils.ParseBeginsWith\<close>, \<open>toInt64\<close> the
  conversion \<^verbatim>\<open>int64(x)\<close> of a float, \<open>QueryLimit\<close> the configured
  \<^verbatim>\<open>models.GlobalConfig.Spanner.QueryLimit\<close>.
\<close>

record ('f, 'db) env =
  codec :: "'f codec"
  TableDDL :: "string \<Rightarrow> ddl option"
  TableColumnMap :: "string \<Rightarrow> string list option"
  GetTableConf :: "string \<Rightarrow> TableConfig \<times> error option"
  ChangeTableNameForSpanner :: "string \<Rightarrow> string"
  AssignError :: "error option \<Rightarrow> error option"
  EvaluateExpression :: "'f Eval \<Rightarrow> bool \<times> error option"
  ParseFloat :: "string \<Rightarrow> 'f \<times> error option"
  fadd :: "'f \<Rightarrow> 'f \<Rightarrow> 'f"
  IsInf :: "'f \<Rightarrow> bool"
  UpdateFieldByPath :: "'f val \<Rightarrow> string \<Rightarrow> 'f val \<Rightarrow> 'f val \<times> bool"
  ReadRow :: "'db \<Rightarrow> string \<Rightarrow> 'f val list \<Rightarrow> string list \<Rightarrow> 'f row option \<times> error option"
  Read :: "'db \<Rightarrow> string \<Rightarrow> 'f val list list \<Rightarrow> string list \<Rightarrow>
           'f row option list \<times> error option"
  Commit :: "'db \<Rightarrow> 'f mutation list \<Rightarrow> 'db \<times> error option"
  RunQuery :: "'db \<Rightarrow> 'f Statement \<Rightarrow> 'f row list \<times> error option"
  ParseBeginsWith :: "string \<Rightarrow> string"
  toInt64 :: "'f \<Rightarrow> 64 word"
  QueryLimit :: "64 word"
  CreateConditionExpression :: "string \<Rightarrow> 'f smap \<Rightarrow> 'f Eval \<times> error option"
  ParseListRemoveTarget :: "string \<Rightarrow> string \<times> int"
  RemoveListElement :: "'f val list \<Rightarrow> int \<Rightarrow> 'f val list"

text \<open>
  A Go call either returns or does not: \<open>Panic\<close> stands for a run-time panic (an index out
  of range, a failed type assertion) and for \<^verbatim>\<open>log.Fatalf\<close>.
\<close>

datatype 'a go = Panic | Ret 'a

text \<open>
  \<^verbatim>\<open>linq.From(xs).IntersectByT(linq.From(ys), id).ToSlice(&xs)\<close>: the elements of \<open>xs\<close>, in
  order, that occur in \<open>ys\<close>, each once (the library deletes a key from its set when it
  yields it).
\<close>

fun IntersectBy :: "string list \<Rightarrow> string list \<Rightarrow> string list" where
  "IntersectBy [] ys = []"
| "IntersectBy (x # xs) ys =
     (if x \<in> set ys then x # IntersectBy xs (removeAll x ys) else IntersectBy xs ys)"

definition columnsOf :: "('f, 'db) env \<Rightarrow> string \<Rightarrow> string list" where
  "columnsOf env table =
     (case TableColumnMap env (ChangeTableNameForSpanner env table) of None \<Rightarrow> [] | Some cs \<Rightarrow> cs)"

section \<open>Batch read (storage: SpannerBatchGet)\<close>




section \<open>Point read (storage: SpannerGet)\<close>

definition SpannerGet ::
  "('f, 'db) env \<Rightarrow> 'db \<Rightarrow> string \<Rightarrow> 'f val \<Rightarrow> 'f val \<Rightarrow> string list \<Rightarrow>
   error + ('f smap \<times> 'f smap option)" where
  "SpannerGet env db tableName pKeys sKeys projectionCols =
     (let key = (if sKeys = VNil then [pKeys] else [pKeys, sKeys]) in
      case (if length projectionCols = 0
            then TableColumnMap env (ChangeTableNameForSpanner env tableName)
            else Some projectionCols) of
        None \<Rightarrow> Inl (Error ''ResourceNotFoundException'')
      | Some projectionCols' \<Rightarrow>
          (case TableDDL env (ChangeTableNameForSpanner env tableName) of
             None \<Rightarrow> Inl (Error ''ResourceNotFoundException'')
           | Some colDDL \<Rightarrow>
               (case ReadRow env db (ChangeTableNameForSpanner env tableName) key projectionCols' of
                  (row, err) \<Rightarrow>
                    (case AssignError env err of
                       Some e \<Rightarrow> Inl (Error ''ResourceNotFoundException'')
                     | None \<Rightarrow> parseRow (codec env) row colDDL))))"

section \<open>Condition evaluation inside a transaction (storage: evaluateConditionalExpression)\<close>

text \<open>
  The first half of \<^verbatim>\<open>evaluateConditionalExpression\<close>: resolve the table, build the key
  from \<open>m\<close>, choose the columns, read the row and decode it. The result is the snapshot
  \<^verbatim>\<open>rowMap\<close> or the error the function returns with status \<^verbatim>\<open>false\<close>.
\<close>

definition conditionCols :: "'f Eval \<Rightarrow> 'f UpdateExpressionCondition option \<Rightarrow> string list" where
  "conditionCols e expr =
     (case expr of
        None \<Rightarrow> Cols e
      | Some x \<Rightarrow> foldl (\<lambda>cols k. Cols e @ [k]) (Cols e @ Field x) (map fst (AddValues x)))"

definition readSnapshot ::
  "('f, 'db) env \<Rightarrow> 'db \<Rightarrow> string \<Rightarrow> 'f smap \<Rightarrow> 'f Eval \<Rightarrow>
   'f UpdateExpressionCondition option \<Rightarrow> error + 'f smap" where
  "readSnapshot env db table m e expr =
     (case TableDDL env (ChangeTableNameForSpanner env table) of
        None \<Rightarrow> Inl (Error ''ResourceNotFoundException'')
      | Some colDDL \<Rightarrow>
          (case GetTableConf env table of
             (tableConf, Some err) \<Rightarrow> Inl err
           | (tableConf, None) \<Rightarrow>
               (case map_of m (PartitionKey tableConf) of
                  None \<Rightarrow> Inl (Error ''ValidationException'')
                | Some pValue \<Rightarrow>
                    (case (if SortKey tableConf \<noteq> []
                           then (case map_of m (SortKey tableConf) of
                                   None \<Rightarrow> None
                                 | Some sValue \<Rightarrow> Some [pValue, sValue])
                           else Some [pValue]) of
                       None \<Rightarrow> Inl (Error ''ValidationException'')
                     | Some key \<Rightarrow>
                         (case ReadRow env db (ChangeTableNameForSpanner env table) key
                                 (IntersectBy (conditionCols e expr) (columnsOf env table)) of
                            (r, err) \<Rightarrow>
                              (case AssignError env err of
                                 Some e' \<Rightarrow> Inl e'
                               | None \<Rightarrow>
                                   (case parseRow (codec env) r colDDL of
                                      Inl e' \<Rightarrow> Inl e'
                                    | Inr (rowMap, _) \<Rightarrow> Inr rowMap)))))))"

text \<open>
  One round of the loop over \<^verbatim>\<open>expr.Field\<close>. It returns the error of
  \<^verbatim>\<open>checkInifinty\<close> if there is one, the map \<open>m\<close> and \<^verbatim>\<open>expr.AddValues\<close>.
\<close>

definition addInto ::
  "('f, 'db) env \<Rightarrow> string \<Rightarrow> 'f val option \<Rightarrow> 'f \<Rightarrow> 'f smap \<Rightarrow> 'f smap \<times> error option" where
  "addInto env k cur v1 m =
     (case cur of
        Some (VFloat tmp) \<Rightarrow>
          (AList.update k (VFloat (fadd env tmp v1)) m,
           if IsInf env (fadd env tmp v1) then Some (Error ''ValidationException'') else None)
      | _ \<Rightarrow> (m, None))"

definition fieldStep ::
  "('f, 'db) env \<Rightarrow> 'f smap \<Rightarrow> string \<Rightarrow> string \<Rightarrow> 'f smap \<Rightarrow> (string \<times> 'f) list \<Rightarrow>
   error option \<times> 'f smap \<times> (string \<times> 'f) list" where
  "fieldStep env rowMap cond fld m av =
     (let colName = (if HasPrefix fld ''size(''
                     then (case sizeRegex_FindStringSubmatch fld of Some w \<Rightarrow> w | None \<Rightarrow> fld)
                     else fld);
          status = evaluateStatementFromRowMap cond colName rowMap
      in if status \<noteq> VBool True then
           (case map_of av fld of
              Some v1 \<Rightarrow>
                (case addInto env fld (map_of rowMap fld) v1 m of
                   (m', Some err) \<Rightarrow> (Some err, m', av)
                 | (m', None) \<Rightarrow> (None, m', AList.delete fld av))
            | None \<Rightarrow> (None, AList.delete fld m, AList.delete fld av))
         else
           (case map_of av fld of
              Some v1 \<Rightarrow>
                (case addInto env fld (map_of m fld) v1 m of
                   (m', Some err) \<Rightarrow> (Some err, m', av)
                 | (m', None) \<Rightarrow> (None, m', AList.delete fld av))
            | None \<Rightarrow> (None, m, AList.delete fld av)))"

fun fieldLoop ::
  "('f, 'db) env \<Rightarrow> 'f smap \<Rightarrow> string list \<Rightarrow> nat \<Rightarrow> string list \<Rightarrow> 'f smap \<Rightarrow>
   (string \<times> 'f) list \<Rightarrow> (error option \<times> 'f smap \<times> (string \<times> 'f) list) go" where
  "fieldLoop env rowMap conds index [] m av = Ret (None, m, av)"
| "fieldLoop env rowMap conds index (fld # flds) m av =
     (if index < length conds then
        (case fieldStep env rowMap (conds ! index) fld m av of
           (Some err, m', av') \<Rightarrow> Ret (Some err, m', av')
         | (None, m', av') \<Rightarrow> fieldLoop env rowMap conds (Suc index) flds m' av')
      else Panic)"

text \<open>The loop over what is left of \<^verbatim>\<open>expr.AddValues\<close>.\<close>

fun addLoop ::
  "('f, 'db) env \<Rightarrow> 'f smap \<Rightarrow> (string \<times> 'f) list \<Rightarrow> 'f smap \<Rightarrow> error option \<times> 'f smap" where
  "addLoop env rowMap [] m = (None, m)"
| "addLoop env rowMap ((k, v) # av) m =
     (case map_of rowMap k of
        Some (VFloat val) \<Rightarrow>
          (if IsInf env (fadd env val v)
           then (Some (Error ''ValidationException''), AList.update k (VFloat (fadd env val v)) m)
           else addLoop env rowMap av (AList.update k (VFloat (fadd env val v)) m))
      | _ \<Rightarrow> addLoop env rowMap av (AList.update k (VFloat v) m))"

text \<open>
  \<^verbatim>\<open>ToSlice(&cols)\<close> writes the intersection into the array of \<^verbatim>\<open>cols\<close>, from the first
  place on. That array is the array of \<^verbatim>\<open>e.Cols\<close> when \<^verbatim>\<open>cols = e.Cols\<close> (no update
  expression) and when the last \<^verbatim>\<open>append(e.Cols, ...)\<close> found room in it. Then \<^verbatim>\<open>e.Cols\<close>,
  whose length stays, reads the intersection in its first places and its old entries
  after them.
\<close>

definition colsShared :: "'f Eval \<Rightarrow> 'f UpdateExpressionCondition option \<Rightarrow> bool" where
  "colsShared e expr =
     (case expr of
        None \<Rightarrow> True
      | Some x \<Rightarrow>
          (if AddValues x = []
           then length (Cols e) + length (Field x) \<le> max (ColsCap e) (length (Cols e))
           else length (Cols e) + 1 \<le> max (ColsCap e) (length (Cols e))))"

definition colsAfter ::
  "'f Eval \<Rightarrow> 'f UpdateExpressionCondition option \<Rightarrow> string list \<Rightarrow> string list" where
  "colsAfter e expr kept =
     (if colsShared e expr
      then take (length (Cols e)) (kept @ drop (length kept) (Cols e))
      else Cols e)"

text \<open>
  The loop that binds each token of the condition:
  \<^verbatim>\<open>e.ValueMap[e.Tokens[i]] = evaluateStatementFromRowMap(e.Attributes[i], e.Cols[i], rowMap)\<close>.
  It runs on \<open>e\<close> with the columns as \<^const>\<open>colsAfter\<close> leaves them.
\<close>

fun bindTokens :: "'f Eval \<Rightarrow> 'f smap \<Rightarrow> nat \<Rightarrow> nat \<Rightarrow> 'f smap \<Rightarrow> 'f smap go" where
  "bindTokens e rowMap i 0 vm = Ret vm"
| "bindTokens e rowMap i (Suc n) vm =
     (if i < length (Tokens e) \<and> i < length (Cols e) then
        bindTokens e rowMap (Suc i) n
          (AList.update (Tokens e ! i)
             (evaluateStatementFromRowMap (Attributes e ! i) (Cols e ! i) rowMap) vm)
      else Panic)"

text \<open>
  \<^verbatim>\<open>evaluateConditionalExpression\<close> returns the status, the error and, through its map
  argument, the updated \<open>m\<close>.
\<close>

definition evaluateConditionalExpression ::
  "('f, 'db) env \<Rightarrow> 'db \<Rightarrow> string \<Rightarrow> 'f smap \<Rightarrow> 'f Eval \<Rightarrow>
   'f UpdateExpressionCondition option \<Rightarrow> (bool \<times> error option \<times> 'f smap) go" where
  "evaluateConditionalExpression env db table m e expr =
     (case readSnapshot env db table m e expr of
        Inl err \<Rightarrow> Ret (False, Some err, m)
      | Inr rowMap \<Rightarrow>
          (case (case expr of
                   None \<Rightarrow> Ret (None, m)
                 | Some x \<Rightarrow>
                     (case fieldLoop env rowMap (Condition x) 0 (Field x) m (AddValues x) of
                        Panic \<Rightarrow> Panic
                      | Ret (Some err, m', av') \<Rightarrow> Ret (Some err, m')
                      | Ret (None, m', av') \<Rightarrow> Ret (addLoop env rowMap av' m'))) of
             Panic \<Rightarrow> Panic
           | Ret (Some err, m') \<Rightarrow> Ret (False, Some err, m')
           | Ret (None, m') \<Rightarrow>
               (let e1 = e\<lparr>Cols := colsAfter e expr
                                   (IntersectBy (conditionCols e expr) (columnsOf env table))\<rparr>
                in case bindTokens e1 rowMap 0 (length (Attributes e1)) (ValueMap e1) of
                     Panic \<Rightarrow> Panic
                   | Ret vm \<Rightarrow>
                       (case EvaluateExpression env (e1\<lparr>ValueMap := vm\<rparr>) of
                          (status, Some err) \<Rightarrow> Ret (False, Some err, m')
                        | (status, None) \<Rightarrow> Ret (status, None, m')))))"

section \<open>Read/write transactions (storage: SpannerPut to SpannerRemove)\<close>

text \<open>
  \<^verbatim>\<open>ReadWriteTransaction\<close> of the client library runs the function it is given on the
  state of the database. When the function returns an error, nothing is committed and the
  error is the result; when it returns nil, the mutations it buffered are committed. A
  panic leaves the call without a commit. The function's reads see the state the
  transaction started from; \<^verbatim>\<open>BufferWrite\<close> itself does not fail. Retries after an abort
  by the backend are left out. Beside the mutations and the error, the function hands back
  what it wrote to the variables it captured.
\<close>

definition ReadWriteTransaction ::
  "('f, 'db) env \<Rightarrow> 'db \<Rightarrow> ('db \<Rightarrow> ('a \<times> 'f mutation list \<times> error option) go) \<Rightarrow>
   (('a \<times> error option) \<times> 'db) go" where
  "ReadWriteTransaction env db f =
     (case f db of
        Panic \<Rightarrow> Panic
      | Ret (x, muts, Some e) \<Rightarrow> Ret ((x, Some e), db)
      | Ret (x, muts, None) \<Rightarrow> (case Commit env db muts of (db', cerr) \<Rightarrow> Ret ((x, cerr), db')))"

definition ddlOf :: "('f, 'db) env \<Rightarrow> string \<Rightarrow> ddl" where
  "ddlOf env table = (case TableDDL env table of None \<Rightarrow> [] | Some d \<Rightarrow> d)"

text \<open>
  The loop that writes a list value as its JSON text, over the entries \<open>todo\<close> into
  \<open>tmpMap\<close> (in \<^verbatim>\<open>SpannerPut\<close>, \<^verbatim>\<open>SpannerRemove\<close>).
\<close>

fun serializeLists :: "'f codec \<Rightarrow> 'f smap \<Rightarrow> 'f smap \<Rightarrow> error + 'f smap" where
  "serializeLists cd [] tmpMap = Inr tmpMap"
| "serializeLists cd ((k, v) # todo) tmpMap =
     (case v of
        VList l \<Rightarrow>
          (case jsonMarshal cd v of
             (jsonValue, Some e) \<Rightarrow> Inl (Error ''failed to serialize column'')
           | (jsonValue, None) \<Rightarrow> serializeLists cd todo (AList.update k (VStr jsonValue) tmpMap))
      | _ \<Rightarrow> serializeLists cd todo (AList.update k v tmpMap))"

definition updateMapColumnObject ::
  "('f, 'db) env \<Rightarrow> 'f smap \<Rightarrow> string \<Rightarrow> string \<Rightarrow> 'f val \<Rightarrow> 'f val go" where
  "updateMapColumnObject env spannerRow colName k v =
     (case jsonMarshal (codec env) (valueAt spannerRow colName) of
        (jsonBytes, Some e) \<Rightarrow> Panic
      | (jsonBytes, None) \<Rightarrow>
          (case jsonUnmarshal (codec env) jsonBytes of
             (data, Some e) \<Rightarrow> Panic
           | (data, None) \<Rightarrow> Ret (fst (UpdateFieldByPath env data k v))))"

text \<open>
  The loop of \<^verbatim>\<open>performPutOperation\<close> ranges over the map it changes. \<open>keys\<close> are the keys
  present when the loop starts; a key deleted before it is reached is skipped, a key added
  on the way is not visited.
\<close>

fun putLoop ::
  "('f, 'db) env \<Rightarrow> ddl \<Rightarrow> 'f smap \<Rightarrow> string list \<Rightarrow> 'f smap \<Rightarrow> (error + 'f smap) go" where
  "putLoop env ddl spannerRow [] newMap = Ret (Inr newMap)"
| "putLoop env ddl spannerRow (k # keys) newMap =
     (case map_of newMap k of
        None \<Rightarrow> putLoop env ddl spannerRow keys newMap
      | Some v \<Rightarrow>
          if Contains k ''.'' then
            (if map_of ddl (hd (Split k ''.'')) = Some ''M'' then
               (case updateMapColumnObject env spannerRow (hd (Split k ''.'')) k v of
                  Panic \<Rightarrow> Panic
                | Ret data \<Rightarrow>
                    putLoop env ddl spannerRow keys
                      (AList.delete k (AList.update (hd (Split k ''.'')) data newMap)))
             else putLoop env ddl spannerRow keys newMap)
          else if map_of ddl k = Some ''B'' then
            (case jsonMarshal (codec env) v of
               (ba, Some e) \<Rightarrow> Ret (Inl (Error ''ValidationException''))
             | (ba, None) \<Rightarrow> putLoop env ddl spannerRow keys (AList.update k (VBytes ba) newMap))
          else if map_of ddl k = Some ''M'' then
            (if v = VNil then putLoop env ddl spannerRow keys newMap
             else
               (case jsonMarshalIndent (codec env) v of
                  (ba, Some e) \<Rightarrow> Ret (Inl (Error ''ValidationException''))
                | (ba, None) \<Rightarrow> putLoop env ddl spannerRow keys (AList.update k (VStr ba) newMap)))
          else putLoop env ddl spannerRow keys newMap)"

definition performPutOperation ::
  "('f, 'db) env \<Rightarrow> string \<Rightarrow> 'f smap \<Rightarrow> 'f smap \<Rightarrow> ('f mutation list \<times> error option) go" where
  "performPutOperation env table m spannerRow =
     (case putLoop env (ddlOf env table) spannerRow (map fst m) m of
        Panic \<Rightarrow> Panic
      | Ret (Inl e) \<Rightarrow> Ret ([], Some e)
      | Ret (Inr newMap) \<Rightarrow>
          Ret ([spanner_InsertOrUpdateMap table newMap], AssignError env None))"

text \<open>
  The test that guards every conditional write:
  \<^verbatim>\<open>len(eval.Attributes) > 0 || expr != nil\<close>.
\<close>

definition hasCondition :: "'f Eval \<Rightarrow> 'f UpdateExpressionCondition option \<Rightarrow> bool" where
  "hasCondition eval expr = (length (Attributes eval) > 0 \<or> expr \<noteq> None)"

text \<open>The function that \<^verbatim>\<open>SpannerPut\<close> runs in its transaction; it hands back \<^verbatim>\<open>update\<close>.\<close>

definition SpannerPut_txn ::
  "('f, 'db) env \<Rightarrow> string \<Rightarrow> 'f smap \<Rightarrow> 'f Eval \<Rightarrow> 'f UpdateExpressionCondition option \<Rightarrow>
   'f smap \<Rightarrow> 'db \<Rightarrow> ('f smap \<times> 'f mutation list \<times> error option) go" where
  "SpannerPut_txn env table m eval expr spannerRow db =
     (case serializeLists (codec env) m [] of
        Inl e \<Rightarrow> Ret ([], [], Some e)
      | Inr tmpMap \<Rightarrow>
          (case (if hasCondition eval expr
                 then evaluateConditionalExpression env db table tmpMap eval expr
                 else Ret (True, None, tmpMap)) of
             Panic \<Rightarrow> Panic
           | Ret (status, Some err, tmpMap') \<Rightarrow> Ret ([], [], Some err)
           | Ret (status, None, tmpMap') \<Rightarrow>
               if \<not> status then Ret ([], [], Some (Error ''ConditionalCheckFailedException''))
               else
                 (case performPutOperation env (ChangeTableNameForSpanner env table) tmpMap'
                         spannerRow of
                    Panic \<Rightarrow> Panic
                  | Ret (muts, err) \<Rightarrow> Ret (tmpMap', muts, err))))"

definition SpannerPut ::
  "('f, 'db) env \<Rightarrow> 'db \<Rightarrow> string \<Rightarrow> 'f smap \<Rightarrow> 'f Eval \<Rightarrow>
   'f UpdateExpressionCondition option \<Rightarrow> 'f smap \<Rightarrow> (('f smap \<times> error option) \<times> 'db) go" where
  "SpannerPut env db table m eval expr spannerRow =
     ReadWriteTransaction env db (SpannerPut_txn env table m eval expr spannerRow)"

text \<open>The key of the row a delete addresses, from the table configuration.\<close>

definition deleteKey :: "TableConfig \<Rightarrow> 'f smap \<Rightarrow> error + 'f val list" where
  "deleteKey tableConf tmpMap =
     (case map_of tmpMap (PartitionKey tableConf) of
        None \<Rightarrow> Inl (Error ''ResourceNotFoundException'')
      | Some pValue \<Rightarrow>
          if SortKey tableConf \<noteq> [] then
            (case map_of tmpMap (SortKey tableConf) of
               None \<Rightarrow> Inl (Error ''ResourceNotFoundException'')
             | Some sValue \<Rightarrow> Inr [pValue, sValue])
          else Inr [pValue])"

definition SpannerDelete_txn ::
  "('f, 'db) env \<Rightarrow> string \<Rightarrow> 'f smap \<Rightarrow> 'f Eval \<Rightarrow> 'f UpdateExpressionCondition option \<Rightarrow>
   'db \<Rightarrow> (unit \<times> 'f mutation list \<times> error option) go" where
  "SpannerDelete_txn env table m eval expr db =
     (case (if hasCondition eval expr
            then evaluateConditionalExpression env db table m eval expr
            else Ret (True, None, m)) of
        Panic \<Rightarrow> Panic
      | Ret (status, Some err, tmpMap) \<Rightarrow> Ret ((), [], Some err)
      | Ret (status, None, tmpMap) \<Rightarrow>
          if \<not> status then Ret ((), [], Some (Error ''ConditionalCheckFailedException''))
          else
            (case GetTableConf env table of
               (tableConf, Some err) \<Rightarrow> Ret ((), [], Some err)
             | (tableConf, None) \<Rightarrow>
                 (case deleteKey tableConf tmpMap of
                    Inl e \<Rightarrow> Ret ((), [], Some e)
                  | Inr key \<Rightarrow>
                      Ret ((), [spanner_Delete (ChangeTableNameForSpanner env table) key],
                           AssignError env None))))"

definition SpannerDelete ::
  "('f, 'db) env \<Rightarrow> 'db \<Rightarrow> string \<Rightarrow> 'f smap \<Rightarrow> 'f Eval \<Rightarrow>
   'f UpdateExpressionCondition option \<Rightarrow> (error option \<times> 'db) go" where
  "SpannerDelete env db table m eval expr =
     (case ReadWriteTransaction env db (SpannerDelete_txn env table m eval expr) of
        Panic \<Rightarrow> Panic
      | Ret ((_, err), db') \<Rightarrow> Ret (err, db'))"

text \<open>
  The loop of \<^verbatim>\<open>SpannerRemove\<close> over the removal targets. \<^verbatim>\<open>oldRes\<close> may be the nil map
  (\<open>None\<close>): reading it finds nothing and \<^verbatim>\<open>delete\<close> does nothing.
\<close>

definition isListTarget :: "string \<Rightarrow> bool" where
  "isListTarget target = (Contains target ''['' \<and> Contains target '']'')"

fun removeLoop ::
  "('f, 'db) env \<Rightarrow> string list \<Rightarrow> 'f smap option \<Rightarrow> 'f smap \<Rightarrow> 'f smap option \<times> 'f smap" where
  "removeLoop env [] oldRes tmpMap = (oldRes, tmpMap)"
| "removeLoop env (target # rest) oldRes tmpMap =
     (if isListTarget target then
        (case ParseListRemoveTarget env target of
           (listAttr, idx) \<Rightarrow>
             (case oldRes of
                None \<Rightarrow> removeLoop env rest oldRes tmpMap
              | Some old \<Rightarrow>
                  (case map_of old listAttr of
                     Some (VList list) \<Rightarrow>
                       removeLoop env rest
                         (Some (AList.update listAttr (VList (RemoveListElement env list idx)) old))
                         (AList.update listAttr (VList (RemoveListElement env list idx)) tmpMap)
                   | _ \<Rightarrow> removeLoop env rest oldRes tmpMap)))
      else removeLoop env rest (map_option (AList.delete target) oldRes) tmpMap)"

text \<open>
  The function that \<^verbatim>\<open>SpannerRemove\<close> runs in its transaction. The condition is evaluated
  on \<open>m\<close>, the write is built from the copy \<^verbatim>\<open>tmpMap\<close> taken before; \<^verbatim>\<open>oldRes\<close> is the
  caller's map and is handed back as the function leaves it.
\<close>

definition SpannerRemove_txn ::
  "('f, 'db) env \<Rightarrow> string \<Rightarrow> 'f smap \<Rightarrow> 'f Eval \<Rightarrow> 'f UpdateExpressionCondition option \<Rightarrow>
   string list \<Rightarrow> 'f smap option \<Rightarrow> 'db \<Rightarrow> ('f smap option \<times> 'f mutation list \<times> error option) go" where
  "SpannerRemove_txn env table m eval expr colsToRemove oldRes db =
     (case (if hasCondition eval expr
            then evaluateConditionalExpression env db table m eval expr
            else Ret (True, None, m)) of
        Panic \<Rightarrow> Panic
      | Ret (status, _, _) \<Rightarrow>
          if \<not> status then Ret (oldRes, [], Some (Error ''ConditionalCheckFailedException''))
          else
            (case removeLoop env colsToRemove oldRes m of
               (oldRes', tmpMap) \<Rightarrow>
                 (case serializeLists (codec env) tmpMap tmpMap of
                    Inl e \<Rightarrow> Ret (oldRes', [], Some e)
                  | Inr tmpMap' \<Rightarrow>
                      Ret (oldRes',
                           [spanner_InsertOrUpdateMap (ChangeTableNameForSpanner env table) tmpMap'],
                           None))))"

definition SpannerRemove ::
  "('f, 'db) env \<Rightarrow> 'db \<Rightarrow> string \<Rightarrow> 'f smap \<Rightarrow> 'f Eval \<Rightarrow>
   'f UpdateExpressionCondition option \<Rightarrow> string list \<Rightarrow> 'f smap option \<Rightarrow>
   (('f smap option \<times> error option) \<times> 'db) go" where
  "SpannerRemove env db table m eval expr colsToRemove oldRes =
     ReadWriteTransaction env db (SpannerRemove_txn env table m eval expr colsToRemove oldRes)"

text \<open>
  \<^verbatim>\<open>SpannerAdd\<close> and \<^verbatim>\<open>SpannerDel\<close> begin alike: they split the keys off the item. The
  result is \<^verbatim>\<open>pValue\<close>, \<^verbatim>\<open>sValue\<close> (nil when the key is not in the item) and \<^verbatim>\<open>cols\<close>.
\<close>

definition splitKeys :: "string \<Rightarrow> string \<Rightarrow> 'f smap \<Rightarrow> 'f val \<times> 'f val \<times> string list" where
  "splitKeys pKey sKey m =
     (valueAt m pKey,
      (if sKey = pKey then VNil else valueAt m sKey),
      filter (\<lambda>k. k \<noteq> pKey \<and> k \<noteq> sKey) (map fst m))"

definition keyOf :: "'f val \<Rightarrow> 'f val \<Rightarrow> 'f val list" where
  "keyOf pValue sValue = (if sValue \<noteq> VNil then [pValue, sValue] else [pValue])"

definition withKeys :: "string \<Rightarrow> string \<Rightarrow> 'f val \<Rightarrow> 'f val \<Rightarrow> 'f smap \<Rightarrow> 'f smap" where
  "withKeys pKey sKey pValue sValue tmpMap =
     (if sValue \<noteq> VNil then AList.update sKey sValue (AList.update pKey pValue tmpMap)
      else AList.update pKey pValue tmpMap)"

text \<open>
  The loop of \<^verbatim>\<open>SpannerAdd\<close> that adds the request's numbers to the row \<open>rs\<close>.
  \<^verbatim>\<open>reflect.TypeOf(v).String()\<close> panics on a nil \<open>v\<close>. \<^verbatim>\<open>parseRow\<close> gives no
  \<^verbatim>\<open>int64\<close>, so that case of the type switch does not arise.
\<close>

fun sumLoop ::
  "('f, 'db) env \<Rightarrow> 'f smap \<Rightarrow> 'f smap \<Rightarrow> 'f smap \<Rightarrow> (error + 'f smap) go" where
  "sumLoop env rs [] tmpMap = Ret (Inr tmpMap)"
| "sumLoop env rs ((k, v) # todo) tmpMap =
     (case map_of rs k of
        None \<Rightarrow> sumLoop env rs todo tmpMap
      | Some (VFloat existingVal) \<Rightarrow>
          (case v of
             VFloat v2 \<Rightarrow>
               sumLoop env rs todo (AList.update k (VFloat (fadd env existingVal v2)) tmpMap)
           | VStr strV \<Rightarrow>
               (case ParseFloat env strV of
                  (v2, Some e) \<Rightarrow> Ret (Inl (Error ''ValidationException''))
                | (v2, None) \<Rightarrow>
                    sumLoop env rs todo (AList.update k (VFloat (fadd env existingVal v2)) tmpMap))
           | VNil \<Rightarrow> Panic
           | _ \<Rightarrow> Ret (Inl (Error ''ValidationException'')))
      | Some _ \<Rightarrow> (if v = VNil then Panic else sumLoop env rs todo tmpMap))"

text \<open>
  The last loop of \<^verbatim>\<open>SpannerAdd\<close>: it fills \<^verbatim>\<open>updatedObj\<close> and writes lists as JSON
  text. What it stores for a \<^verbatim>\<open>BYTES(MAX)\<close> column is overwritten by the type switch
  that follows, only the error of that first encoding remains.
\<close>

fun addFinish ::
  "('f, 'db) env \<Rightarrow> ddl \<Rightarrow> 'f smap \<Rightarrow> 'f smap \<Rightarrow> 'f smap \<Rightarrow> 'f smap \<times> (error + 'f smap)" where
  "addFinish env ddl [] updatedObj tmpMap = (updatedObj, Inr tmpMap)"
| "addFinish env ddl ((k, v) # todo) updatedObj tmpMap =
     (if map_of ddl k = Some ''BYTES(MAX)'' \<and> snd (jsonMarshal (codec env) v) \<noteq> None then
        (AList.update k v updatedObj, Inl (Error ''ValidationException''))
      else
        (case v of
           VList l \<Rightarrow>
             (case jsonMarshal (codec env) v of
                (jsonValue, Some e) \<Rightarrow>
                  (AList.update k v updatedObj, Inl (Error ''failed to serialize column''))
              | (jsonValue, None) \<Rightarrow>
                  addFinish env ddl todo (AList.update k v updatedObj)
                    (AList.update k (VStr jsonValue) tmpMap))
         | _ \<Rightarrow> addFinish env ddl todo (AList.update k v updatedObj) (AList.update k v tmpMap)))"

definition SpannerAdd_txn ::
  "('f, 'db) env \<Rightarrow> string \<Rightarrow> TableConfig \<Rightarrow> ddl \<Rightarrow> 'f smap \<Rightarrow> 'f Eval \<Rightarrow>
   'f UpdateExpressionCondition option \<Rightarrow> 'db \<Rightarrow>
   ('f smap \<times> 'f mutation list \<times> error option) go" where
  "SpannerAdd_txn env table tableConf colDDL m eval expr db =
     (case splitKeys (PartitionKey tableConf) (SortKey tableConf) m of
        (pValue, sValue, cols) \<Rightarrow>
          (case (if hasCondition eval expr
                 then evaluateConditionalExpression env db table m eval expr
                 else Ret (True, None, m)) of
             Panic \<Rightarrow> Panic
           | Ret (status, _, tmpMap) \<Rightarrow>
               if \<not> status then Ret ([], [], Some (Error ''ConditionalCheckFailedException''))
               else
                 (case ReadRow env db (ChangeTableNameForSpanner env table)
                         (keyOf pValue sValue) cols of
                    (r, Some err) \<Rightarrow> Ret ([], [], Some (Error ''ResourceNotFoundException''))
                  | (r, None) \<Rightarrow>
                      (case parseRow (codec env) r colDDL of
                         Inl err \<Rightarrow> Ret ([], [], Some err)
                       | Inr (rs, _) \<Rightarrow>
                           (case sumLoop env rs tmpMap tmpMap of
                              Panic \<Rightarrow> Panic
                            | Ret (Inl err) \<Rightarrow> Ret ([], [], Some err)
                            | Ret (Inr tmpMap1) \<Rightarrow>
                                (let tmpMap2 = withKeys (PartitionKey tableConf) (SortKey tableConf)
                                                 pValue sValue tmpMap1
                                 in case addFinish env
                                           (ddlOf env (ChangeTableNameForSpanner env table))
                                           tmpMap2 [] tmpMap2 of
                                      (updatedObj, Inl err) \<Rightarrow> Ret (updatedObj, [], Some err)
                                    | (updatedObj, Inr tmpMap3) \<Rightarrow>
                                        Ret (updatedObj,
                                             [spanner_InsertOrUpdateMap
                                                (ChangeTableNameForSpanner env table) tmpMap3],
                                             None)))))))"

text \<open>\<^verbatim>\<open>SpannerAdd\<close> returns \<^verbatim>\<open>updatedObj\<close> (nil before the transaction) and the error.\<close>

definition SpannerAdd ::
  "('f, 'db) env \<Rightarrow> 'db \<Rightarrow> string \<Rightarrow> 'f smap \<Rightarrow> 'f Eval \<Rightarrow>
   'f UpdateExpressionCondition option \<Rightarrow> (('f smap \<times> error option) \<times> 'db) go" where
  "SpannerAdd env db table m eval expr =
     (case GetTableConf env table of
        (tableConf, Some err) \<Rightarrow> Ret (([], Some err), db)
      | (tableConf, None) \<Rightarrow>
          (case TableDDL env (ChangeTableNameForSpanner env table) of
             None \<Rightarrow> Ret (([], Some (Error ''ResourceNotFoundException'')), db)
           | Some colDDL \<Rightarrow>
               ReadWriteTransaction env db (SpannerAdd_txn env table tableConf colDDL m eval expr)))"

text \<open>
  The loop of \<^verbatim>\<open>SpannerDel\<close> that takes the request's elements out of a list of the row.
  The elements go through a Go map with interface keys: a key that cannot be hashed, or a
  nil one, panics, and the order in which the remaining elements come out is not
  specified (here: the order of the row, each once).
\<close>

fun hashable :: "'f val \<Rightarrow> bool" where
  "hashable (VBool b) = True"
| "hashable (VStr s) = True"
| "hashable (VFloat x) = True"
| "hashable (VInt i) = True"
| "hashable _ = False"

fun diffLoop ::
  "('f, 'db) env \<Rightarrow> 'f smap \<Rightarrow> 'f smap \<Rightarrow> 'f smap \<Rightarrow> 'f smap go" where
  "diffLoop env rs [] tmpMap = Ret tmpMap"
| "diffLoop env rs ((k, v) # todo) tmpMap =
     (case map_of rs k of
        None \<Rightarrow> diffLoop env rs todo tmpMap
      | Some (VList ifaces) \<Rightarrow>
          (case (case v of
                   VBytes ba \<Rightarrow>
                     (case jsonUnmarshal (codec env) ba of
                        (VList l, None) \<Rightarrow> Ret l
                      | _ \<Rightarrow> Ret [])
                 | VList l \<Rightarrow> Ret l
                 | _ \<Rightarrow> Panic) of
             Panic \<Rightarrow> Panic
           | Ret ifaces1 \<Rightarrow>
               if list_all hashable ifaces \<and> list_all hashable ifaces1 then
                 diffLoop env rs todo
                   (AList.update k (VList (filter (\<lambda>x. x \<notin> set ifaces1) (remdups ifaces))) tmpMap)
               else Panic)
      | Some _ \<Rightarrow> (if v = VNil then Panic else diffLoop env rs todo tmpMap))"

fun bytesLoop :: "('f, 'db) env \<Rightarrow> ddl \<Rightarrow> 'f smap \<Rightarrow> 'f smap \<Rightarrow> error + 'f smap" where
  "bytesLoop env ddl [] tmpMap = Inr tmpMap"
| "bytesLoop env ddl ((k, v) # todo) tmpMap =
     (if map_of ddl k = Some ''BYTES(MAX)'' then
        (case jsonMarshal (codec env) v of
           (ba, Some e) \<Rightarrow> Inl (Error ''ValidationException'')
         | (ba, None) \<Rightarrow> bytesLoop env ddl todo (AList.update k (VBytes ba) tmpMap))
      else bytesLoop env ddl todo tmpMap)"

text \<open>
  In \<^verbatim>\<open>SpannerDel\<close> the condition is evaluated on the full item \<^verbatim>\<open>m1\<close>, and the write is
  built from the item without its keys.
\<close>

definition SpannerDel_txn ::
  "('f, 'db) env \<Rightarrow> string \<Rightarrow> TableConfig \<Rightarrow> ddl \<Rightarrow> 'f smap \<Rightarrow> 'f Eval \<Rightarrow>
   'f UpdateExpressionCondition option \<Rightarrow> 'db \<Rightarrow> (unit \<times> 'f mutation list \<times> error option) go" where
  "SpannerDel_txn env table tableConf colDDL m eval expr db =
     (case splitKeys (PartitionKey tableConf) (SortKey tableConf) m of
        (pValue, sValue, cols) \<Rightarrow>
          (case (if hasCondition eval expr
                 then evaluateConditionalExpression env db table m eval expr
                 else Ret (True, None, m)) of
             Panic \<Rightarrow> Panic
           | Ret (status, _, _) \<Rightarrow>
               if \<not> status then Ret ((), [], Some (Error ''ConditionalCheckFailedException''))
               else
                 (case ReadRow env db (ChangeTableNameForSpanner env table)
                         (keyOf pValue sValue) cols of
                    (r, Some err) \<Rightarrow> Ret ((), [], Some (Error ''ResourceNotFoundException''))
                  | (r, None) \<Rightarrow>
                      (case parseRow (codec env) r colDDL of
                         Inl err \<Rightarrow> Ret ((), [], Some err)
                       | Inr (rs, _) \<Rightarrow>
                           (let tmpMap = filter (\<lambda>(k, v). k \<noteq> PartitionKey tableConf
                                                          \<and> k \<noteq> SortKey tableConf) m
                            in case diffLoop env rs tmpMap tmpMap of
                                 Panic \<Rightarrow> Panic
                               | Ret tmpMap1 \<Rightarrow>
                                   (let tmpMap2 = withKeys (PartitionKey tableConf)
                                                    (SortKey tableConf) pValue sValue tmpMap1
                                    in case bytesLoop env
                                              (ddlOf env (ChangeTableNameForSpanner env table))
                                              tmpMap2 tmpMap2 of
                                         Inl err \<Rightarrow> Ret ((), [], Some err)
                                       | Inr tmpMap3 \<Rightarrow>
                                           Ret ((),
                                                [spanner_InsertOrUpdateMap
                                                   (ChangeTableNameForSpanner env table) tmpMap3],
                                                None)))))))"

definition SpannerDel ::
  "('f, 'db) env \<Rightarrow> 'db \<Rightarrow> string \<Rightarrow> 'f smap \<Rightarrow> 'f Eval \<Rightarrow>
   'f UpdateExpressionCondition option \<Rightarrow> (error option \<times> 'db) go" where
  "SpannerDel env db table m eval expr =
     (case GetTableConf env table of
        (tableConf, Some err) \<Rightarrow> Ret (Some err, db)
      | (tableConf, None) \<Rightarrow>
          (case TableDDL env (ChangeTableNameForSpanner env table) of
             None \<Rightarrow> Ret (Some (Error ''ResourceNotFoundException''), db)
           | Some colDDL \<Rightarrow>
               (case ReadWriteTransaction env db
                       (SpannerDel_txn env table tableConf colDDL m eval expr) of
                  Panic \<Rightarrow> Panic
                | Ret ((_, err), db') \<Rightarrow> Ret (err, db'))))"

section \<open>The write services (services: Put, Add, Del, Delete, Remove)\<close>

text \<open>\<^verbatim>\<open>for k, v := range newResp { updateResp[k] = v }\<close> on a copy of \<^verbatim>\<open>oldRes\<close>.\<close>

definition mergeResp :: "'f smap \<Rightarrow> 'f smap \<Rightarrow> 'f smap" where
  "mergeResp oldRes newResp = foldl (\<lambda>acc (k, v). AList.update k v acc) oldRes newResp"

definition Put ::
  "('f, 'db) env \<Rightarrow> 'db \<Rightarrow> string \<Rightarrow> 'f smap \<Rightarrow> 'f UpdateExpressionCondition option \<Rightarrow>
   string \<Rightarrow> 'f smap \<Rightarrow> 'f smap option \<Rightarrow> 'f smap \<Rightarrow>
   (('f smap option \<times> error option) \<times> 'db) go" where
  "Put env db tableName putObj expr conditionExp expressionAttr oldRes spannerRow =
     (case GetTableConf env tableName of
        (tableConf, Some err) \<Rightarrow> Ret ((None, Some err), db)
      | (tableConf, None) \<Rightarrow>
          (case CreateConditionExpression env conditionExp expressionAttr of
             (e, Some err) \<Rightarrow> Ret ((None, Some err), db)
           | (e, None) \<Rightarrow>
               (case SpannerPut env db (ActualTable tableConf) putObj e expr spannerRow of
                  Panic \<Rightarrow> Panic
                | Ret ((newResp, Some err), db') \<Rightarrow> Ret ((None, Some err), db')
                | Ret ((newResp, None), db') \<Rightarrow>
                    (case oldRes of
                       None \<Rightarrow> Ret ((None, None), db')
                     | Some old \<Rightarrow> Ret ((Some (mergeResp old newResp), None), db')))))"

definition Add ::
  "('f, 'db) env \<Rightarrow> 'db \<Rightarrow> string \<Rightarrow> string \<Rightarrow> 'f smap \<Rightarrow> 'f smap \<Rightarrow>
   'f UpdateExpressionCondition option \<Rightarrow> 'f smap option \<Rightarrow>
   (('f smap option \<times> error option) \<times> 'db) go" where
  "Add env db tableName condExpression m expressionAttr expr oldRes =
     (case GetTableConf env tableName of
        (tableConf, Some err) \<Rightarrow> Ret ((None, Some err), db)
      | (tableConf, None) \<Rightarrow>
          (case CreateConditionExpression env condExpression expressionAttr of
             (e, Some err) \<Rightarrow> Ret ((None, Some err), db)
           | (e, None) \<Rightarrow>
               (case SpannerAdd env db (ActualTable tableConf) m e expr of
                  Panic \<Rightarrow> Panic
                | Ret ((newResp, Some err), db') \<Rightarrow> Ret ((None, Some err), db')
                | Ret ((newResp, None), db') \<Rightarrow>
                    (case oldRes of
                       None \<Rightarrow> Ret ((Some newResp, None), db')
                     | Some old \<Rightarrow> Ret ((Some (mergeResp old newResp), None), db')))))"

definition Del ::
  "('f, 'db) env \<Rightarrow> 'db \<Rightarrow> string \<Rightarrow> 'f smap \<Rightarrow> string \<Rightarrow> 'f smap \<Rightarrow>
   'f UpdateExpressionCondition option \<Rightarrow> (('f smap option \<times> error option) \<times> 'db) go" where
  "Del env db tableName attrMap condExpression expressionAttr expr =
     (case GetTableConf env tableName of
        (tableConf, Some err) \<Rightarrow> Ret ((None, Some err), db)
      | (tableConf, None) \<Rightarrow>
          (case CreateConditionExpression env condExpression expressionAttr of
             (e, Some err) \<Rightarrow> Ret ((None, Some err), db)
           | (e, None) \<Rightarrow>
               (case SpannerDel env db (ActualTable tableConf) expressionAttr e expr of
                  Panic \<Rightarrow> Panic
                | Ret (Some err, db') \<Rightarrow> Ret ((None, Some err), db')
                | Ret (None, db') \<Rightarrow>
                    (case SpannerGet env db' (ActualTable tableConf)
                            (valueAt attrMap (PartitionKey tableConf))
                            (valueAt attrMap (SortKey tableConf)) [] of
                       Inl err \<Rightarrow> Ret ((None, Some err), db')
                     | Inr (res, _) \<Rightarrow> Ret ((Some res, None), db')))))"

definition Delete ::
  "('f, 'db) env \<Rightarrow> 'db \<Rightarrow> string \<Rightarrow> 'f smap \<Rightarrow> string \<Rightarrow> 'f smap \<Rightarrow>
   'f UpdateExpressionCondition option \<Rightarrow> (error option \<times> 'db) go" where
  "Delete env db tableName primaryKeyMap condExpression attrMap expr =
     (case GetTableConf env tableName of
        (tableConf, Some err) \<Rightarrow> Ret (Some err, db)
      | (tableConf, None) \<Rightarrow>
          (case CreateConditionExpression env condExpression attrMap of
             (e, Some err) \<Rightarrow> Ret (Some err, db)
           | (e, None) \<Rightarrow> SpannerDelete env db (ActualTable tableConf) primaryKeyMap e expr))"

text \<open>The item without the columns \<open>cols\<close>: what removing whole columns comes to.\<close>

definition deleteAll :: "string list \<Rightarrow> 'f smap \<Rightarrow> 'f smap" where
  "deleteAll cols m = filter (\<lambda>(k, v). k \<notin> set cols) m"

text \<open>
  The loop of \<^verbatim>\<open>Remove\<close> over the targets, after the transaction. A list target changes
  \<^verbatim>\<open>oldRes\<close> once more and leaves the copy \<^verbatim>\<open>updateResp\<close> alone; a column target is
  deleted from the copy. The copy holds the same list values as \<^verbatim>\<open>oldRes\<close>; the model
  takes \<^verbatim>\<open>RemoveListElement\<close> as a function on values, so a change it might make in place
  to a shared list is not followed.
\<close>

fun respLoop ::
  "('f, 'db) env \<Rightarrow> string list \<Rightarrow> 'f smap \<Rightarrow> 'f smap \<Rightarrow> error option \<times> 'f smap \<times> 'f smap" where
  "respLoop env [] oldRes updateResp = (None, oldRes, updateResp)"
| "respLoop env (target # rest) oldRes updateResp =
     (if isListTarget target then
        (case ParseListRemoveTarget env target of
           (listAttr, idx) \<Rightarrow>
             if idx \<noteq> - 1 then
               (case map_of oldRes listAttr of
                  Some (VList list) \<Rightarrow>
                    respLoop env rest
                      (AList.update listAttr (VList (RemoveListElement env list idx)) oldRes)
                      updateResp
                | _ \<Rightarrow> respLoop env rest oldRes updateResp)
             else (Some (Error ''invalid list index format for target''), oldRes, updateResp))
      else respLoop env rest oldRes (AList.delete target updateResp))"

text \<open>
  \<^verbatim>\<open>Remove\<close> returns the post-image \<^verbatim>\<open>updateResp\<close> and the error; the third component is
  the caller's \<^verbatim>\<open>oldRes\<close> as the call leaves it.
\<close>

definition Remove ::
  "('f, 'db) env \<Rightarrow> 'db \<Rightarrow> string \<Rightarrow> 'f UpdateAttr \<Rightarrow> string \<Rightarrow>
   'f UpdateExpressionCondition option \<Rightarrow> 'f smap option \<Rightarrow>
   (('f smap option \<times> error option) \<times> 'f smap option \<times> 'db) go" where
  "Remove env db tableName updateAttr actionValue expr oldRes =
     (let colsToRemove = Split (ReplaceAll actionValue '' '' []) '','' in
      case GetTableConf env tableName of
        (tableConf, Some err) \<Rightarrow> Ret ((None, Some err), oldRes, db)
      | (tableConf, None) \<Rightarrow>
          (case CreateConditionExpression env (upd_ConditionExpression updateAttr)
                  (upd_ExpressionAttributeMap updateAttr) of
             (e, Some err) \<Rightarrow> Ret ((None, Some err), oldRes, db)
           | (e, None) \<Rightarrow>
               (case SpannerRemove env db (ActualTable tableConf) (upd_PrimaryKeyMap updateAttr)
                       e expr colsToRemove oldRes of
                  Panic \<Rightarrow> Panic
                | Ret ((oldRes1, Some err), db') \<Rightarrow> Ret ((None, Some err), oldRes1, db')
                | Ret ((oldRes1, None), db') \<Rightarrow>
                    (case oldRes1 of
                       None \<Rightarrow> Ret ((None, None), None, db')
                     | Some old \<Rightarrow>
                         (case respLoop env colsToRemove old old of
                            (Some err, old', updateResp) \<Rightarrow> Ret ((None, Some err), Some old', db')
                          | (None, old', updateResp) \<Rightarrow>
                              Ret ((Some updateResp, None), Some old', db'))))))"

section \<open>The query planner (services: getSpannerProjections to parseLimit)\<close>

definition getSpannerProjections ::
  "('f, 'db) env \<Rightarrow> string \<Rightarrow> string \<Rightarrow> (string \<times> string) list \<Rightarrow> string list" where
  "getSpannerProjections env projectionExpression table expressionAttributeNames =
     (if projectionExpression = [] then []
      else
        IntersectBy
          (map (\<lambda>pro. case map_of expressionAttributeNames (TrimSpace pro) of
                        Some val \<Rightarrow> val
                      | None \<Rightarrow> TrimSpace pro)
             (Split projectionExpression '',''))
          (columnsOf env table))"

text \<open>
  The projection as the specification words it: the comma-separated paths of \<open>P\<close>, trimmed,
  after the substitution of the name map. It serves to state the property of the columns.
\<close>

definition substitutedProjection :: "string \<Rightarrow> (string \<times> string) list \<Rightarrow> string list" where
  "substitutedProjection P names =
     map (\<lambda>pro. case map_of names (TrimSpace pro) of Some val \<Rightarrow> val | None \<Rightarrow> TrimSpace pro)
       (Split P '','')"

definition appendMissing :: "string list \<Rightarrow> string \<Rightarrow> string list" where
  "appendMissing cols key = (if key \<in> set cols then cols else cols @ [key])"

definition colStrOf :: "string \<Rightarrow> string list \<Rightarrow> string" where
  "colStrOf table cols =
     Trim (concat (map (\<lambda>c. table @ [CHR ''.'', CHR 0x60] @ c @ [CHR 0x60, CHR '',''])
                     (filter (\<lambda>c. c \<noteq> ''commit_timestamp'') cols))) CHR '',''"

text \<open>
  \<^verbatim>\<open>parseSpannerColumns\<close> returns the columns, the select list and whether the query
  counts. Its caller always passes a query, so the nil test is not a case here.
\<close>

definition parseSpannerColumns ::
  "('f, 'db) env \<Rightarrow> 'f Query \<Rightarrow> string \<Rightarrow> string \<Rightarrow> string \<Rightarrow> string list \<times> string \<times> bool" where
  "parseSpannerColumns env query tPkey pKey sKey =
     (if OnlyCount query then ([''count''], ''COUNT('' @ pKey @ '') AS count'', True)
      else
        (let table = ChangeTableNameForSpanner env (TableName query);
             cols =
               (if ProjectionExpression query \<noteq> [] then
                  (let c0 = getSpannerProjections env (ProjectionExpression query) (TableName query)
                              (ExpressionAttributeNames query);
                       c1 = appendMissing c0 pKey;
                       c2 = (if sKey \<noteq> [] then appendMissing c1 sKey else c1)
                   in if tPkey \<noteq> pKey then appendMissing c2 tPkey else c2)
                else (case TableColumnMap env table of None \<Rightarrow> [] | Some cs \<Rightarrow> cs))
         in (cols, colStrOf table cols, False)))"

definition parseSpannerTableName :: "('f, 'db) env \<Rightarrow> 'f Query \<Rightarrow> string" where
  "parseSpannerTableName env query =
     ChangeTableNameForSpanner env (TableName query) @
     (if IndexName query \<noteq> [] then CHR ''@'' # ''{FORCE_INDEX='' @ IndexName query @ ''}'' else [])"

text \<open>
  The loop of \<^verbatim>\<open>createWhereClause\<close> over the value map: a key that occurs in the
  expression is replaced, everywhere, by the next positional parameter.
\<close>

fun bindPlaceholders ::
  "string \<Rightarrow> 'f smap \<Rightarrow> nat \<Rightarrow> string \<Rightarrow> 'f smap \<Rightarrow> string \<times> 'f smap" where
  "bindPlaceholders queryVar [] count expression params = (expression, params)"
| "bindPlaceholders queryVar ((k, v) # rest) count expression params =
     (if Contains expression k then
        bindPlaceholders queryVar rest (Suc count)
          (ReplaceAll expression k (CHR ''@'' # queryVar @ FormatInt (int count)))
          (AList.update (queryVar @ FormatInt (int count)) v params)
      else bindPlaceholders queryVar rest count expression params)"

definition createWhereClause ::
  "('f, 'db) env \<Rightarrow> string \<Rightarrow> string \<Rightarrow> string \<Rightarrow> 'f smap \<Rightarrow> 'f smap \<Rightarrow>
   (string \<times> string \<times> 'f smap) go" where
  "createWhereClause env whereClause expression queryVar RangeValueMap params =
     (let expression1 = ReplaceAll (ParseBeginsWith env expression) ''begins_with'' ''STARTS_WITH'';
          whereClause1 =
            (if whereClause \<noteq> ''WHERE '' \<and> \<not> HasSuffix (TrimSpace whereClause) ''AND''
             then whereClause @ '' AND '' else whereClause)
      in case bindPlaceholders queryVar RangeValueMap 1 expression1 params of
           (expression2, params') \<Rightarrow>
             if re_MatchString expression2 then
               (case Split (TrimSpace expression2) ''='' of
                  p0 # p1 # _ \<Rightarrow>
                    (case Split (TrimSpace p0) ''.'' of
                       [] \<Rightarrow> Panic
                     | j0 # js \<Rightarrow>
                         Ret (whereClause1 @ '' '' @
                                ''JSON_VALUE('' @ j0 @ '', '' @ [CHR 0x27] @ ''$.'' @ Join js ''.'' @
                                [CHR 0x27] @ '') = '' @ p1,
                              expression2, params'))
                | _ \<Rightarrow> Panic)
             else if expression2 \<noteq> [] then Ret (whereClause1 @ expression2, expression2, params')
             else Ret (whereClause1, expression2, params'))"

definition parseSpannerCondition ::
  "('f, 'db) env \<Rightarrow> 'f Query \<Rightarrow> string \<Rightarrow> string \<Rightarrow> (string \<times> 'f smap) go" where
  "parseSpannerCondition env query pKey sKey =
     (let whereClause0 = ''WHERE '' @ (if sKey \<noteq> [] then sKey @ '' is not null '' else []) in
      case (if RangeExp query \<noteq> []
            then createWhereClause env whereClause0 (RangeExp query) ''rangeExp'' (RangeValMap query) []
            else Ret (whereClause0, RangeExp query, [])) of
        Panic \<Rightarrow> Panic
      | Ret (whereClause1, _, params1) \<Rightarrow>
          (case (if FilterExp query \<noteq> []
                 then createWhereClause env whereClause1 (FilterExp query) ''filterExp''
                        (RangeValMap query) params1
                 else Ret (whereClause1, FilterExp query, params1)) of
             Panic \<Rightarrow> Panic
           | Ret (whereClause2, _, params2) \<Rightarrow>
               Ret (if whereClause2 = ''WHERE '' then '' '' else whereClause2, params2)))"

definition parseOffset :: "('f, 'db) env \<Rightarrow> 'f Query \<Rightarrow> string \<times> 64 word" where
  "parseOffset env query =
     (case StartFrom query of
        None \<Rightarrow> ([], 0)
      | Some sf \<Rightarrow>
          (case map_of sf ''offset'' of
             Some (VFloat offset) \<Rightarrow>
               ('' OFFSET '' @ FormatInt (sint (toInt64 env offset)), toInt64 env offset)
           | _ \<Rightarrow> ([], 0)))"

definition parseSpannerSorting :: "'f Query \<Rightarrow> bool \<Rightarrow> string \<Rightarrow> string \<Rightarrow> string" where
  "parseSpannerSorting query isCountQuery pKey sKey =
     (if isCountQuery then '' ''
      else if sKey = [] then '' ''
      else if SortAscending query then '' ORDER BY '' @ sKey @ '' ASC ''
      else '' ORDER BY '' @ sKey @ '' DESC '')"

definition parseLimit :: "'f Query \<Rightarrow> bool \<Rightarrow> string" where
  "parseLimit query isCountQuery =
     (if isCountQuery then []
      else if Limit query = 0 then '' LIMIT 5000 ''
      else '' LIMIT '' @ FormatInt (sint (Limit query)))"

text \<open>
  \<^verbatim>\<open>createSpannerQuery\<close> returns the statement, the columns, whether the query counts,
  the offset and the fingerprint of the SQL text.
\<close>

definition createSpannerQuery ::
  "('f, 'db) env \<Rightarrow> 'f Query \<Rightarrow> string \<Rightarrow> string \<Rightarrow> string \<Rightarrow>
   ('f Statement \<times> string list \<times> bool \<times> 64 word \<times> string) go" where
  "createSpannerQuery env query tPkey pKey sKey =
     (case parseSpannerColumns env query tPkey pKey sKey of
        (cols, colstr, isCountQuery) \<Rightarrow>
          (case parseSpannerCondition env query pKey sKey of
             Panic \<Rightarrow> Panic
           | Ret (whereCondition, m) \<Rightarrow>
               (case parseOffset env query of
                  (offsetString, offset) \<Rightarrow>
                    (let finalQuery =
                           ''SELECT '' @ colstr @ '' FROM '' @ parseSpannerTableName env query @ '' '' @
                           whereCondition @ parseSpannerSorting query isCountQuery pKey sKey @
                           parseLimit query isCountQuery @ offsetString
                     in Ret (\<lparr>SQL = finalQuery, Params = m\<rparr>, cols, isCountQuery, offset,
                             natDigits (unat (fnv64a finalQuery)))))))"

section \<open>Running a query (storage: ExecuteSpannerQuery; services: QueryAttributes, Scan)\<close>

text \<open>\<^verbatim>\<open>r.ColumnByName("count", &count)\<close> into an \<^verbatim>\<open>int64\<close>.\<close>

definition ColumnByName_int64 :: "'f row \<Rightarrow> string \<Rightarrow> 64 word \<times> error option" where
  "ColumnByName_int64 r name =
     (case filter (\<lambda>(k, c). k = name) r of
        [] \<Rightarrow> (0, Some (Error ''column not found''))
      | [(k, CInt64 (Some n))] \<Rightarrow> (n, None)
      | [(k, c)] \<Rightarrow> (0, Some mismatch)
      | _ \<Rightarrow> (0, Some (Error ''ambiguous column name'')))"

fun queryLoop ::
  "'f codec \<Rightarrow> ddl \<Rightarrow> bool \<Rightarrow> 'f row list \<Rightarrow> error option \<Rightarrow> 'f smap list \<Rightarrow>
   error + 'f smap list" where
  "queryLoop cd colDLL isCountQuery [] err allRows =
     (case err of None \<Rightarrow> Inr allRows | Some e \<Rightarrow> Inl (Error ''ResourceNotFoundException''))"
| "queryLoop cd colDLL isCountQuery (r # rs) err allRows =
     (if isCountQuery then
        (case ColumnByName_int64 r ''count'' of
           (count, Some e) \<Rightarrow> Inl e
         | (count, None) \<Rightarrow>
             Inr (allRows @ [[(''Count'', VInt (sint count)), (''Items'', VList []),
                              (''LastEvaluatedKey'', VNil)]]))
      else
        (case parseRow cd (Some r) colDLL of
           Inl e \<Rightarrow> Inl e
         | Inr (singleRow, _) \<Rightarrow> queryLoop cd colDLL isCountQuery rs err (allRows @ [singleRow])))"

definition ExecuteSpannerQuery ::
  "('f, 'db) env \<Rightarrow> 'db \<Rightarrow> string \<Rightarrow> string list \<Rightarrow> bool \<Rightarrow> 'f Statement \<Rightarrow>
   error + 'f smap list" where
  "ExecuteSpannerQuery env db table cols isCountQuery stmt =
     (case TableDDL env (ChangeTableNameForSpanner env table) of
        None \<Rightarrow> Inl (Error ''ResourceNotFoundException'')
      | Some colDLL \<Rightarrow>
          (case RunQuery env db stmt of
             (rows, err) \<Rightarrow> queryLoop (codec env) colDLL isCountQuery rows err []))"

text \<open>
  The first lines of \<^verbatim>\<open>QueryAttributes\<close>: the query with the index name and the table
  name rewritten, and the keys \<^verbatim>\<open>pKey\<close> and \<^verbatim>\<open>sKey\<close> the query runs on.
\<close>

definition resolveKeys :: "TableConfig \<Rightarrow> 'f Query \<Rightarrow> 'f Query \<times> string \<times> string" where
  "resolveKeys tableConf query =
     (let r = (if IndexName query \<noteq> [] then
                 (let conf = (case map_of (Indices tableConf) (IndexName query) of
                                None \<Rightarrow> TableConfig [] [] [] []
                              | Some c \<Rightarrow> c)
                  in (query\<lparr>IndexName := ReplaceAll (IndexName query) ''-'' ''_'',
                             TableName := (if ActualTable tableConf \<noteq> TableName query
                                           then ActualTable tableConf else TableName query)\<rparr>,
                      PartitionKey conf, SortKey conf))
               else (query, PartitionKey tableConf, SortKey tableConf))
      in case r of (query', pKey, sKey) \<Rightarrow>
           if pKey = [] then (query', PartitionKey tableConf, SortKey tableConf)
           else (query', pKey, sKey))"

text \<open>
  The last lines of \<^verbatim>\<open>QueryAttributes\<close>, from \<^verbatim>\<open>finalResp := make(...)\<close> on: the
  response built from the rows \<open>resp\<close> of a query that does not count. The map literal
  of \<^verbatim>\<open>LastEvaluatedKey\<close> is filled in the order it is written: of two entries with the
  same key the later one stays.
\<close>

definition lastEvaluatedKey ::
  "64 word \<Rightarrow> 64 word \<Rightarrow> string \<Rightarrow> string \<Rightarrow> string \<Rightarrow> string \<Rightarrow> 'f smap \<Rightarrow> 'f smap" where
  "lastEvaluatedKey originalLimit offset pKey tPKey sKey tSKey lastRow =
     (let lek = AList.update tPKey (valueAt lastRow tPKey)
                  (AList.update pKey (valueAt lastRow pKey)
                     [(''offset'', VInt (sint (originalLimit + offset)))])
      in if sKey \<noteq> []
         then AList.update tSKey (valueAt lastRow tSKey) (AList.update sKey (valueAt lastRow sKey) lek)
         else lek)"

text \<open>The key columns that \<^verbatim>\<open>LastEvaluatedKey\<close> carries.\<close>

definition queryKeys :: "string \<Rightarrow> string \<Rightarrow> string \<Rightarrow> string \<Rightarrow> string list" where
  "queryKeys pKey tPKey sKey tSKey = [pKey, tPKey] @ (if sKey \<noteq> [] then [sKey, tSKey] else [])"

definition buildResponse ::
  "64 word \<Rightarrow> 64 word \<Rightarrow> string \<Rightarrow> string \<Rightarrow> string \<Rightarrow> string \<Rightarrow> 'f smap list \<Rightarrow> 'f smap go" where
  "buildResponse originalLimit offset pKey tPKey sKey tSKey resp =
     (if length resp = 0 then
        Ret [(''Count'', VInt 0), (''Items'', VList []), (''LastEvaluatedKey'', VNil)]
      else if sint originalLimit < int (length resp) then
        (if 2 \<le> length resp then
           Ret [(''Count'', VInt (int (length resp) - 1)),
                (''LastEvaluatedKey'',
                 VMap (lastEvaluatedKey originalLimit offset pKey tPKey sKey tSKey
                         (resp ! (length resp - 2)))),
                (''Items'', VList (map VMap (take (length resp - 1) resp)))]
         else Panic)
      else
        Ret [(''Items'', VList (map VMap resp)), (''Count'', VInt (int (length resp))),
             (''LastEvaluatedKey'', VNil)])"

text \<open>
  \<^verbatim>\<open>QueryAttributes\<close> up to its call of \<^verbatim>\<open>createSpannerQuery\<close>: the error of the table
  lookup, or the query with the limit raised by one, \<^verbatim>\<open>tPKey\<close>, \<^verbatim>\<open>tSKey\<close>, \<^verbatim>\<open>pKey\<close>,
  \<^verbatim>\<open>sKey\<close> and \<^verbatim>\<open>originalLimit\<close>.
\<close>

definition queryPlan ::
  "('f, 'db) env \<Rightarrow> 'f Query \<Rightarrow>
   error + ('f Query \<times> string \<times> string \<times> string \<times> string \<times> 64 word)" where
  "queryPlan env query =
     (case GetTableConf env (TableName query) of
        (tableConf, Some err) \<Rightarrow> Inl err
      | (tableConf, None) \<Rightarrow>
          (case resolveKeys tableConf query of
             (query1, pKey, sKey) \<Rightarrow>
               Inr (query1\<lparr>Limit := Limit query1 + 1\<rparr>,
                    PartitionKey tableConf, SortKey tableConf, pKey, sKey, Limit query1)))"

text \<open>\<^verbatim>\<open>QueryAttributes\<close> returns the response, the fingerprint and the error.\<close>

definition QueryAttributes ::
  "('f, 'db) env \<Rightarrow> 'db \<Rightarrow> 'f Query \<Rightarrow> ('f smap \<times> string \<times> error option) go" where
  "QueryAttributes env db query =
     (case queryPlan env query of
        Inl err \<Rightarrow> Ret ([], [], Some err)
      | Inr (query2, tPKey, tSKey, pKey, sKey, originalLimit) \<Rightarrow>
          (case createSpannerQuery env query2 tPKey pKey sKey of
             Panic \<Rightarrow> Panic
           | Ret (stmt, cols, isCountQuery, offset, hash) \<Rightarrow>
               (case ExecuteSpannerQuery env db (TableName query2) cols isCountQuery stmt of
                  Inl err \<Rightarrow> Ret ([], hash, Some err)
                | Inr resp \<Rightarrow>
                    if isCountQuery then
                      (case resp of [] \<Rightarrow> Panic | r0 # _ \<Rightarrow> Ret (r0, hash, None))
                    else
                      (case buildResponse originalLimit offset pKey tPKey sKey tSKey resp of
                         Panic \<Rightarrow> Panic
                       | Ret finalResp \<Rightarrow> Ret (finalResp, hash, None)))))"

text \<open>The statement that \<^verbatim>\<open>QueryAttributes\<close> hands to the backend, when it gets that far.\<close>

definition executedStatement :: "('f, 'db) env \<Rightarrow> 'f Query \<Rightarrow> 'f Statement option" where
  "executedStatement env query =
     (case queryPlan env query of
        Inl err \<Rightarrow> None
      | Inr (query2, tPKey, tSKey, pKey, sKey, originalLimit) \<Rightarrow>
          (case createSpannerQuery env query2 tPKey pKey sKey of
             Panic \<Rightarrow> None
           | Ret (stmt, cols, isCountQuery, offset, hash) \<Rightarrow> Some stmt))"

definition scanQuery :: "('f, 'db) env \<Rightarrow> 'f ScanMeta \<Rightarrow> 'f Query" where
  "scanQuery env scanData =
     \<lparr>TableName = scan_TableName scanData,
      IndexName = scan_IndexName scanData,
      OnlyCount = scan_OnlyCount scanData,
      Limit = (if scan_Limit scanData = 0 then QueryLimit env else scan_Limit scanData),
      SortAscending = False,
      StartFrom = scan_StartFrom scanData,
      ProjectionExpression = scan_ProjectionExpression scanData,
      ExpressionAttributeNames = scan_ExpressionAttributeNames scanData,
      FilterExp = foldl (\<lambda>f (k, v). ReplaceAll f k v) (scan_FilterExpression scanData)
                    (scan_ExpressionAttributeNames scanData),
      RangeExp = [],
      RangeValMap = scan_ExpressionAttributeMap scanData\<rparr>"

definition Scan :: "('f, 'db) env \<Rightarrow> 'db \<Rightarrow> 'f ScanMeta \<Rightarrow> ('f smap \<times> error option) go" where
  "Scan env db scanData =
     (case QueryAttributes env db (scanQuery env scanData) of
        Panic \<Rightarrow> Panic
      | Ret (rs, _, err) \<Rightarrow> Ret (rs, err))"

section \<open>The two list helpers of package utils\<close>

text \<open>
  Modelled from the spec: \<^verbatim>\<open>utils.RemoveListElement\<close> is not among the files at hand. The
  specification says of REMOVE: "for \<^verbatim>\<open>path[i]\<close>, remove element i from the current list
  value" and "list index removal preserves order of remaining elements". An index outside
  the list leaves the list as it is.
\<close>

definition RemoveListElement_spec :: "'f val list \<Rightarrow> int \<Rightarrow> 'f val list" where
  "RemoveListElement_spec list idx =
     (if 0 \<le> idx \<and> idx < int (length list)
      then take (nat idx) list @ drop (Suc (nat idx)) list
      else list)"

text \<open>
  Modelled from the spec: \<^verbatim>\<open>utils.ParseListRemoveTarget\<close> is not among the files at hand.
  The specification writes a list target as \<^verbatim>\<open>path[i]\<close>; the callers take \<^verbatim>\<open>-1\<close> for a
  target that has no index of this form.
\<close>

definition digitVal :: "char \<Rightarrow> nat" where
  "digitVal c = length (takeWhile (\<lambda>d. d \<noteq> c) ''0123456789'')"

definition Atoi :: "string \<Rightarrow> nat option" where
  "Atoi s = (if s \<noteq> [] \<and> list_all (\<lambda>c. c \<in> set ''0123456789'') s
             then Some (foldl (\<lambda>n c. 10 * n + digitVal c) 0 s) else None)"

definition ParseListRemoveTarget_spec :: "string \<Rightarrow> string \<times> int" where
  "ParseListRemoveTarget_spec target =
     (case Atoi (takeWhile (\<lambda>c. c \<noteq> CHR '']'') (drop 1 (dropWhile (\<lambda>c. c \<noteq> CHR ''['') target))) of
        Some i \<Rightarrow> (takeWhile (\<lambda>c. c \<noteq> CHR ''['') target, int i)
      | None \<Rightarrow> (target, - 1))"

section \<open>The error filter of package errors\<close>

text \<open>
  The error with which the client library answers a read of a single row that the table
  does not hold: its code is \<^verbatim>\<open>codes.NotFound\<close>, and the row that comes with it is nil.
\<close>

definition rowNotFound :: error where
  "rowNotFound = Error ''NotFound''"

text \<open>
  Modelled from the spec: \<^verbatim>\<open>errors.AssignError\<close> is not among the files at hand. The
  specification has a condition evaluated on an empty snapshot when there is no row yet,
  and the read paths take a missing row for an empty snapshot, not for an error: so the
  error that reports a row as not found passes as nil. Every other error is kept.
\<close>

definition AssignError_spec :: "error option \<Rightarrow> error option" where
  "AssignError_spec err =
     (case err of None \<Rightarrow> None | Some e \<Rightarrow> if e = rowNotFound then None else Some e)"

section \<open>A sample deployment\<close>

text \<open>
  One table \<^verbatim>\<open>orders\<close> with partition key \<^verbatim>\<open>id\<close>, sort key \<^verbatim>\<open>ts\<close> and an index
  \<^verbatim>\<open>by-owner\<close>, numbers taken as integers, and a database that is a list of rows by table
  and key. It serves the examples that follow the theorems. The codecs of the sample know
  a few texts only.
\<close>

definition sampleCodec :: "int codec" where
  "sampleCodec =
     \<lparr>IsValidBase64 = base64Regexp_MatchString,
      ParseBytes = (\<lambda>r idx col.
         (case snd (r ! idx) of
            CString (Some s) \<Rightarrow>
              (case map_of [(''YQ=='', ''a'')] s of
                 Some b \<Rightarrow> ([(col, VBytes b)], None)
               | None \<Rightarrow> ([], Some (Error ''illegal base64 data'')))
          | _ \<Rightarrow> ([], Some mismatch))),
      jsonUnmarshal = (\<lambda>s. (VNil, Some (Error ''invalid character''))),
      jsonMarshal = (\<lambda>v. if v = VList [VFloat 2, VFloat 3] then (''[2,3]'', None)
                         else if v = VList [VFloat 3] then (''[3]'', None)
                         else ([], Some (Error ''unsupported value''))),
      jsonMarshalIndent = (\<lambda>v. ([], Some (Error ''unsupported value''))),
      base64Decode = (\<lambda>s. (case map_of [(''YQ=='', ''a'')] s of
                             Some b \<Rightarrow> (b, None)
                           | None \<Rightarrow> ([], Some (Error ''illegal base64 data'')))),
      ParseNestedJSON = (\<lambda>v. v),
      parseDynamoDBJSON = (\<lambda>v. v)\<rparr>"

definition sampleConf :: TableConfig where
  "sampleConf = TableConfig ''id'' ''ts'' [(''by-owner'', TableConfig ''owner'' ''ts'' [] [])] ''orders''"

definition sampleDDL :: ddl where
  "sampleDDL = [(''id'', ''S''), (''ts'', ''S''), (''owner'', ''S''), (''count'', ''N''),
                (''tags'', ''L'')]"

type_synonym sampleDb = "((string \<times> int val list) \<times> int row) list"

definition cellOf :: "int val \<Rightarrow> int cell" where
  "cellOf v = (case v of
                 VNil \<Rightarrow> CString None
               | VStr s \<Rightarrow> CString (Some s)
               | VFloat x \<Rightarrow> CFloat (Some x)
               | VBool b \<Rightarrow> CBool (Some b)
               | _ \<Rightarrow> CJSON (Some v))"

fun sampleApply :: "sampleDb \<Rightarrow> int mutation \<Rightarrow> sampleDb" where
  "sampleApply db (spanner_Delete t key) = AList.delete (t, key) db"
| "sampleApply db (spanner_InsertOrUpdateMap t m) =
     AList.update (t, [valueAt m ''id'', valueAt m ''ts''])
       (foldl (\<lambda>row (k, v). AList.update k (cellOf v) row)
          (case map_of db (t, [valueAt m ''id'', valueAt m ''ts'']) of None \<Rightarrow> [] | Some r \<Rightarrow> r) m)
       db"

definition sampleEnv :: "(int, sampleDb) env" where
  "sampleEnv =
     \<lparr>codec = sampleCodec,
      TableDDL = (\<lambda>t. if t = ''orders'' then Some sampleDDL else None),
      TableColumnMap = (\<lambda>t. if t = ''orders'' then Some (map fst sampleDDL) else None),
      GetTableConf = (\<lambda>t. if t = ''orders'' then (sampleConf, None)
                           else (TableConfig [] [] [] [], Some (Error ''ResourceNotFoundException''))),
      ChangeTableNameForSpanner = (\<lambda>t. ReplaceAll t ''-'' ''_''),
      AssignError = AssignError_spec,
      EvaluateExpression = (\<lambda>e. case map_of (ValueMap e) (Cond e) of
                                   Some (VBool b) \<Rightarrow> (b, None)
                                 | _ \<Rightarrow> (False, Some (Error ''ValidationException''))),
      ParseFloat = (\<lambda>s. case Atoi s of
                          Some n \<Rightarrow> (int n, None)
                        | None \<Rightarrow> (0, Some (Error ''invalid syntax''))),
      fadd = (\<lambda>a b. a + b),
      IsInf = (\<lambda>x. False),
      UpdateFieldByPath = (\<lambda>data k v. (data, False)),
      ReadRow = (\<lambda>db t key cols.
                   case map_of db (t, key) of
                     None \<Rightarrow> (None, Some rowNotFound)
                   | Some r \<Rightarrow> (Some (filter (\<lambda>(k, c). k \<in> set cols) r), None)),
      Read = (\<lambda>db t keys cols.
                (map (\<lambda>r. Some (filter (\<lambda>(k, c). k \<in> set cols) r))
                   (List.map_filter (\<lambda>key. map_of db (t, key)) keys), None)),
      Commit = (\<lambda>db muts. (foldl sampleApply db muts, None)),
      RunQuery = (\<lambda>db stmt. (map snd db, None)),
      ParseBeginsWith = (\<lambda>s. s),
      toInt64 = (\<lambda>x. word_of_int x),
      QueryLimit = 100,
      CreateConditionExpression = (\<lambda>c attr.
         if c = [] then (\<lparr>Cond = [], Attributes = [], Cols = [], ColsCap = 0, Tokens = [], ValueMap = []\<rparr>, None)
         else (\<lparr>Cond = ''TOKEN0'', Attributes = [c],
                Cols = [takeWhile (\<lambda>x. x \<noteq> CHR '')'') (drop 1 (dropWhile (\<lambda>x. x \<noteq> CHR ''('') c))],
                ColsCap = 1, Tokens = [''TOKEN0''], ValueMap = attr\<rparr>, None)),
      ParseListRemoveTarget = ParseListRemoveTarget_spec,
      RemoveListElement = RemoveListElement_spec\<rparr>"

definition sampleOrder :: "int row" where
  "sampleOrder = [(''id'', CString (Some ''1'')), (''ts'', CString (Some ''t1'')),
                  (''owner'', CString None), (''count'', CFloat (Some 10))]"

definition sampleDb0 :: sampleDb where
  "sampleDb0 = [((''orders'', [VStr ''1'', VStr ''t1'']), sampleOrder)]"

definition sampleQuery :: "int Query" where
  "sampleQuery =
     \<lparr>TableName = ''orders'', IndexName = [], OnlyCount = False, Limit = 2,
      SortAscending = True, StartFrom = None, ProjectionExpression = [],
      ExpressionAttributeNames = [], FilterExp = [], RangeExp = [], RangeValMap = []\<rparr>"

definition sampleItem :: "int smap" where
  "sampleItem = [(''id'', VStr ''1''), (''ts'', VStr ''t1''), (''count'', VFloat 20)]"

definition sampleEval :: "int Eval" where
  "sampleEval =
     \<lparr>Cond = ''TOKEN0'', Attributes = [''attribute_not_exists(id)''], Cols = [''id''],
      ColsCap = 1, Tokens = [''TOKEN0''], ValueMap = []\<rparr>"

definition sampleKeyless :: "int smap" where
  "sampleKeyless = [(''ts'', VStr ''t1''), (''count'', VFloat 1)]"

definition sampleDb2 :: sampleDb where
  "sampleDb2 =
     [((''orders'', [VStr ''1'', VStr ''t1'']), sampleOrder),
      ((''orders'', [VStr ''1'', VStr ''t2'']),
       [(''id'', CString (Some ''1'')), (''ts'', CString (Some ''t2'')),
        (''owner'', CString (Some ''ann'')), (''count'', CFloat (Some 3))])]"

definition sampleScan :: "int ScanMeta" where
  "sampleScan =
     \<lparr>scan_TableName = ''orders'', scan_IndexName = [], scan_OnlyCount = False, scan_Limit = 0,
      scan_StartFrom = None, scan_FilterExpression = [], scan_ProjectionExpression = [],
      scan_ExpressionAttributeNames = [], scan_ExpressionAttributeMap = []\<rparr>"

definition sampleProjected :: "int Query" where
  "sampleProjected = sampleQuery\<lparr>IndexName := ''by-owner'', ProjectionExpression := ''#o, nope, ts'',
       ExpressionAttributeNames := [(''#o'', ''owner'')]\<rparr>"

definition sampleLimited :: "int Query" where
  "sampleLimited = sampleQuery\<lparr>Limit := 1\<rparr>"

definition sampleRows :: "int smap list" where
  "sampleRows =
     [[(''id'', VStr ''1''), (''ts'', VStr ''t1''), (''owner'', VNil), (''count'', VFloat 10)],
      [(''id'', VStr ''1''), (''ts'', VStr ''t2''), (''owner'', VStr ''ann''), (''count'', VFloat 3)]]"

definition sampleUpdate :: "int UpdateAttr" where
  "sampleUpdate =
     \<lparr>upd_TableName = ''orders'', upd_PrimaryKeyMap = [(''id'', VStr ''1''), (''ts'', VStr ''t1'')],
      upd_ConditionExpression = [], upd_ExpressionAttributeMap = []\<rparr>"

definition sampleTagged :: "int smap" where
  "sampleTagged = [(''id'', VStr ''1''), (''ts'', VStr ''t1''),
                   (''tags'', VList [VFloat 1, VFloat 2, VFloat 3])]"

lemmas sample_defs =
  sampleEnv_def AssignError_spec_def rowNotFound_def sampleCodec_def sampleConf_def sampleDDL_def sampleDb0_def sampleOrder_def
  sampleItem_def sampleEval_def sampleQuery_def sampleKeyless_def sampleDb2_def sampleScan_def
  sampleProjected_def sampleLimited_def sampleRows_def

lemmas eval_defs = queryPlan_def resolveKeys_def
  parseSpannerColumns_def parseSpannerCondition_def parseOffset_def parseSpannerSorting_def
  parseLimit_def parseSpannerTableName_def createWhereClause_def
  getSpannerProjections_def columnsOf_def appendMissing_def scanQuery_def
  HasPrefix_def HasSuffix_def FormatInt_def TrimSpace_def is_space_def is_space2_def is_space3_def Split_def Let_def natDigits.simps
     re_MatchString_def is_pathchar_def is_word_def is_letter_def

lemmas plan_eval_defs = queryPlan_def resolveKeys_def
  parseSpannerColumns_def parseSpannerCondition_def parseOffset_def parseSpannerSorting_def
  parseLimit_def parseSpannerTableName_def createWhereClause_def
  getSpannerProjections_def columnsOf_def appendMissing_def
  HasPrefix_def HasSuffix_def TrimSpace_def is_space_def is_space2_def is_space3_def Split_def Let_def

lemmas remove_defs = Remove_def SpannerRemove_def ReadWriteTransaction_def SpannerRemove_txn_def
  hasCondition_def isListTarget_def Split_def HasPrefix_def Let_def sampleUpdate_def sampleTagged_def
  ParseListRemoveTarget_spec_def RemoveListElement_spec_def Atoi_def digitVal_def valueAt_def cellOf_def

lemmas parse_defs =
  parseRow_def parseStringColumn_def parseNumericColumn_def fatal_def HasSuffix_def HasPrefix_def

section \<open>Properties of the row decoder and of the condition functions\<close>

lemma HasPrefix_take: "HasPrefix s p \<Longrightarrow> n \<le> length p \<Longrightarrow> take n s = take n p"
proof -
  assume a: "HasPrefix s p" and b: "n \<le> length p"
  have "take n s = take n (take (length p) s)" using b by (simp add: min_def)
  also have "\<dots> = take n p" using a by (simp add: HasPrefix_def)
  finally show ?thesis .
qed

lemma HasPrefix_clash:
  "HasPrefix s p \<Longrightarrow> HasPrefix s q \<Longrightarrow> n \<le> length p \<Longrightarrow> n \<le> length q \<Longrightarrow> take n p = take n q"
  using HasPrefix_take by metis

lemma exists_is_not_not_exists:
  assumes "HasPrefix ce ''attribute_exists''"
  shows "\<not> HasPrefix ce ''attribute_not_exists''" and "\<not> HasPrefix ce ''if_not_exists''"
proof -
  show "\<not> HasPrefix ce ''attribute_not_exists''"
  proof
    assume "HasPrefix ce ''attribute_not_exists''"
    from HasPrefix_clash [OF assms this, of 11] show False by simp
  qed
  show "\<not> HasPrefix ce ''if_not_exists''"
  proof
    assume "HasPrefix ce ''if_not_exists''"
    from HasPrefix_clash [OF assms this, of 1] show False by simp
  qed
qed

lemma attribute_exists_value:
  "HasPrefix ce ''attribute_exists'' \<Longrightarrow>
   evaluateStatementFromRowMap ce col rowMap = VBool (map_of rowMap col \<noteq> None)"
  by (auto simp: evaluateStatementFromRowMap_def exists_is_not_not_exists)

lemma attribute_not_exists_value:
  "HasPrefix ce ''attribute_not_exists'' \<Longrightarrow>
   evaluateStatementFromRowMap ce col rowMap = VBool (map_of rowMap col = None)"
  by (auto simp: evaluateStatementFromRowMap_def)

text \<open>
  Claim C4, as amended. \<^verbatim>\<open>attribute_exists(path)\<close> is true iff the column key is present in
  the row snapshot, whatever it holds: a column that was read as NULL and stored as nil
  counts as present. \<^verbatim>\<open>attribute_not_exists(path)\<close> is the complement, and it is true
  whenever the snapshot is empty.
\<close>

theorem C4_attribute_exists_is_key_presence:
  "(HasPrefix ce ''attribute_exists'' \<longrightarrow>
      evaluateStatementFromRowMap ce col (rowMap :: 'f smap) = VBool (map_of rowMap col \<noteq> None))
   \<and> (HasPrefix ce' ''attribute_not_exists'' \<longrightarrow>
      evaluateStatementFromRowMap ce' col rowMap = VBool (map_of rowMap col = None)
      \<and> evaluateStatementFromRowMap ce' col ([] :: 'f smap) = VBool True)"
  using attribute_exists_value [of ce col rowMap] attribute_not_exists_value [of ce' col rowMap]
    attribute_not_exists_value [of ce' col "[] :: 'f smap"]
  by (simp del: not_None_eq)

theorem C4_attribute_exists_is_key_presence_witness:
  "HasPrefix ''attribute_exists(owner)'' ''attribute_exists''
   \<and> HasPrefix ''attribute_not_exists(owner)'' ''attribute_not_exists''
   \<and> evaluateStatementFromRowMap ''attribute_exists(owner)'' ''owner''
        [(''id'', VStr ''1''), (''owner'', VNil :: int val)] = VBool True
   \<and> evaluateStatementFromRowMap ''attribute_not_exists(owner)'' ''owner''
        [(''id'', VStr ''1''), (''owner'', VNil :: int val)] = VBool False
   \<and> evaluateStatementFromRowMap ''attribute_not_exists(owner)'' ''owner'' ([] :: int smap)
        = VBool True"
  using C4_attribute_exists_is_key_presence
    [of "''attribute_exists(owner)''" "''owner''" "[(''id'', VStr ''1''), (''owner'', VNil :: int val)]"
        "''attribute_not_exists(owner)''"]
  by (simp add: HasPrefix_def)

text \<open>
  Claim C4 as stated fails: the row of the sample table has a NULL \<^verbatim>\<open>owner\<close>; the decoder
  stores the key with nil, and \<^verbatim>\<open>attribute_exists(owner)\<close> is true on that snapshot.
\<close>

theorem C4_null_column_counterexample:
  "parseRow sampleCodec (Some [(''id'', CString (Some ''1'')), (''owner'', CString None)]) sampleDDL
     = Inr ([(''id'', VStr ''1''), (''owner'', VNil)], Some [])
   \<and> map_of [(''id'', VStr ''1''), (''owner'', VNil :: int val)] ''owner'' = Some VNil
   \<and> evaluateStatementFromRowMap ''attribute_exists(owner)'' ''owner''
        [(''id'', VStr ''1''), (''owner'', VNil :: int val)] = VBool True"
  by (simp add: parse_defs sample_defs evaluateStatementFromRowMap_def)

section \<open>Properties of the read paths\<close>









section \<open>Properties of the conditional writes\<close>

lemma readSnapshot_table:
  assumes "readSnapshot env db table m e expr = Inr rowMap"
  shows "\<exists>tc colDDL. GetTableConf env table = (tc, None)
           \<and> TableDDL env (ChangeTableNameForSpanner env table) = Some colDDL"
proof (cases "TableDDL env (ChangeTableNameForSpanner env table)")
  case None
  with assms show ?thesis by (simp add: readSnapshot_def)
next
  case (Some colDDL)
  obtain tc err where g: "GetTableConf env table = (tc, err)" by (cases "GetTableConf env table")
  show ?thesis
  proof (cases err)
    case None
    with g Some show ?thesis by simp
  next
    case (Some e)
    with g \<open>TableDDL env (ChangeTableNameForSpanner env table) = Some colDDL\<close> assms
    show ?thesis by (simp add: readSnapshot_def)
  qed
qed

lemma evaluate_no_error_snapshot:
  assumes "evaluateConditionalExpression env db table m e expr = Ret (s, None, m')"
  shows "\<exists>rowMap. readSnapshot env db table m e expr = Inr rowMap"
proof (cases "readSnapshot env db table m e expr")
  case (Inl err)
  with assms show ?thesis by (simp add: evaluateConditionalExpression_def)
next
  case (Inr rowMap)
  then show ?thesis by simp
qed

lemma evaluate_no_error_table:
  assumes "evaluateConditionalExpression env db table m e expr = Ret (s, None, m')"
  shows "\<exists>tc colDDL. GetTableConf env table = (tc, None)
           \<and> TableDDL env (ChangeTableNameForSpanner env table) = Some colDDL"
proof -
  from evaluate_no_error_snapshot [OF assms]
  obtain rowMap where "readSnapshot env db table m e expr = Inr rowMap" ..
  then show ?thesis by (rule readSnapshot_table)
qed

lemma evaluate_error_status:
  assumes "evaluateConditionalExpression env db table m e expr = Ret (st, Some err, m')"
  shows "st = False"
  using assms
  by (auto simp: evaluateConditionalExpression_def Let_def
      split: sum.splits option.splits go.splits prod.splits)

lemma put_false:
  assumes "hasCondition eval expr"
    and "serializeLists (codec env) m [] = Inr tmpMap"
    and "evaluateConditionalExpression env db table tmpMap eval expr = Ret (False, None, m')"
  shows "SpannerPut env db table m eval expr spannerRow
           = Ret (([], Some (Error ''ConditionalCheckFailedException'')), db)"
  using assms by (simp add: SpannerPut_def ReadWriteTransaction_def SpannerPut_txn_def)

lemma delete_false:
  assumes "hasCondition eval expr"
    and "evaluateConditionalExpression env db table m eval expr = Ret (False, None, m')"
  shows "SpannerDelete env db table m eval expr
           = Ret (Some (Error ''ConditionalCheckFailedException''), db)"
  using assms by (simp add: SpannerDelete_def ReadWriteTransaction_def SpannerDelete_txn_def)

lemma remove_false:
  assumes "hasCondition eval expr"
    and "evaluateConditionalExpression env db table m eval expr = Ret (False, err, m')"
  shows "SpannerRemove env db table m eval expr colsToRemove oldRes
           = Ret ((oldRes, Some (Error ''ConditionalCheckFailedException'')), db)"
  using assms by (simp add: SpannerRemove_def ReadWriteTransaction_def SpannerRemove_txn_def)

lemma add_false:
  assumes "hasCondition eval expr"
    and "GetTableConf env table = (tc, None)"
    and "TableDDL env (ChangeTableNameForSpanner env table) = Some colDDL"
    and "evaluateConditionalExpression env db table m eval expr = Ret (False, err, m')"
  shows "SpannerAdd env db table m eval expr
           = Ret (([], Some (Error ''ConditionalCheckFailedException'')), db)"
  using assms
  by (simp add: SpannerAdd_def ReadWriteTransaction_def SpannerAdd_txn_def split: prod.splits)

lemma del_false:
  assumes "hasCondition eval expr"
    and "GetTableConf env table = (tc, None)"
    and "TableDDL env (ChangeTableNameForSpanner env table) = Some colDDL"
    and "evaluateConditionalExpression env db table m eval expr = Ret (False, err, m')"
  shows "SpannerDel env db table m eval expr
           = Ret (Some (Error ''ConditionalCheckFailedException''), db)"
  using assms
  by (simp add: SpannerDel_def ReadWriteTransaction_def SpannerDel_txn_def split: prod.splits)

lemma put_error:
  assumes "hasCondition eval expr"
    and "serializeLists (codec env) m [] = Inr tmpMap"
    and "evaluateConditionalExpression env db table tmpMap eval expr = Ret (st, Some e, m')"
  shows "SpannerPut env db table m eval expr spannerRow = Ret (([], Some e), db)"
  using assms by (simp add: SpannerPut_def ReadWriteTransaction_def SpannerPut_txn_def)

lemma delete_error:
  assumes "hasCondition eval expr"
    and "evaluateConditionalExpression env db table m eval expr = Ret (st, Some e, m')"
  shows "SpannerDelete env db table m eval expr = Ret (Some e, db)"
  using assms by (simp add: SpannerDelete_def ReadWriteTransaction_def SpannerDelete_txn_def)

text \<open>
  Claim C1. A conditional write (the guard \<^verbatim>\<open>len(eval.Attributes) > 0 || expr != nil\<close>
  holds) whose condition evaluates to false on the row read inside the transaction fails
  with \<^verbatim>\<open>ConditionalCheckFailedException\<close>, and the database after the call is the
  database before it: nothing is committed. This holds for \<^verbatim>\<open>SpannerPut\<close> (PutItem and
  the SET of UpdateItem), \<^verbatim>\<open>SpannerDelete\<close> (DeleteItem) and for \<^verbatim>\<open>SpannerRemove\<close>,
  \<^verbatim>\<open>SpannerAdd\<close> and \<^verbatim>\<open>SpannerDel\<close> (the other actions of UpdateItem).
\<close>

theorem C1_condition_false_no_mutation:
  assumes "hasCondition eval expr"
  shows "(serializeLists (codec env) m [] = Inr tmpMap
          \<and> evaluateConditionalExpression env db table tmpMap eval expr = Ret (False, None, m1)
          \<longrightarrow> SpannerPut env db table m eval expr spannerRow
                = Ret (([], Some (Error ''ConditionalCheckFailedException'')), db))
       \<and> (evaluateConditionalExpression env db table m eval expr = Ret (False, None, m2)
          \<longrightarrow> SpannerDelete env db table m eval expr
                = Ret (Some (Error ''ConditionalCheckFailedException''), db)
            \<and> SpannerRemove env db table m eval expr colsToRemove oldRes
                = Ret ((oldRes, Some (Error ''ConditionalCheckFailedException'')), db)
            \<and> SpannerAdd env db table m eval expr
                = Ret (([], Some (Error ''ConditionalCheckFailedException'')), db)
            \<and> SpannerDel env db table m eval expr
                = Ret (Some (Error ''ConditionalCheckFailedException''), db))"
proof (intro conjI impI)
  assume "serializeLists (codec env) m [] = Inr tmpMap
          \<and> evaluateConditionalExpression env db table tmpMap eval expr = Ret (False, None, m1)"
  then have a: "serializeLists (codec env) m [] = Inr tmpMap"
    and b: "evaluateConditionalExpression env db table tmpMap eval expr = Ret (False, None, m1)"
    by simp_all
  show "SpannerPut env db table m eval expr spannerRow
          = Ret (([], Some (Error ''ConditionalCheckFailedException'')), db)"
    by (rule put_false [OF assms a b])
next
  assume e: "evaluateConditionalExpression env db table m eval expr = Ret (False, None, m2)"
  from evaluate_no_error_table [OF e] obtain tc colDDL where
    t: "GetTableConf env table = (tc, None)"
       "TableDDL env (ChangeTableNameForSpanner env table) = Some colDDL" by blast
  show "SpannerDelete env db table m eval expr
          = Ret (Some (Error ''ConditionalCheckFailedException''), db)"
    by (rule delete_false [OF assms e])
  show "SpannerRemove env db table m eval expr colsToRemove oldRes
          = Ret ((oldRes, Some (Error ''ConditionalCheckFailedException'')), db)"
    by (rule remove_false [OF assms e])
  show "SpannerAdd env db table m eval expr
          = Ret (([], Some (Error ''ConditionalCheckFailedException'')), db)"
    by (rule add_false [OF assms t e])
  show "SpannerDel env db table m eval expr
          = Ret (Some (Error ''ConditionalCheckFailedException''), db)"
    by (rule del_false [OF assms t e])
qed

lemma sample_serialize: "serializeLists (codec sampleEnv) sampleItem [] = Inr sampleItem"
  by (simp add: sample_defs)

lemma sample_evaluate:
  "evaluateConditionalExpression sampleEnv sampleDb0 ''orders'' sampleItem sampleEval None
     = Ret (False, None, sampleItem)"
  by (simp add: evaluateConditionalExpression_def readSnapshot_def conditionCols_def columnsOf_def
      colsAfter_def colsShared_def Let_def parse_defs sample_defs
      evaluateStatementFromRowMap_def)

theorem C1_condition_false_no_mutation_witness:
  "hasCondition sampleEval None
   \<and> serializeLists (codec sampleEnv) sampleItem [] = Inr sampleItem
   \<and> evaluateConditionalExpression sampleEnv sampleDb0 ''orders'' sampleItem sampleEval None
       = Ret (False, None, sampleItem)
   \<and> SpannerPut sampleEnv sampleDb0 ''orders'' sampleItem sampleEval None []
       = Ret (([], Some (Error ''ConditionalCheckFailedException'')), sampleDb0)
   \<and> SpannerDelete sampleEnv sampleDb0 ''orders'' sampleItem sampleEval None
       = Ret (Some (Error ''ConditionalCheckFailedException''), sampleDb0)
   \<and> SpannerRemove sampleEnv sampleDb0 ''orders'' sampleItem sampleEval None [''count''] None
       = Ret ((None, Some (Error ''ConditionalCheckFailedException'')), sampleDb0)
   \<and> SpannerAdd sampleEnv sampleDb0 ''orders'' sampleItem sampleEval None
       = Ret (([], Some (Error ''ConditionalCheckFailedException'')), sampleDb0)
   \<and> SpannerDel sampleEnv sampleDb0 ''orders'' sampleItem sampleEval None
       = Ret (Some (Error ''ConditionalCheckFailedException''), sampleDb0)"
proof -
  have h: "hasCondition sampleEval None" by (simp add: hasCondition_def sampleEval_def)
  from C1_condition_false_no_mutation [OF h, of sampleEnv sampleItem sampleItem sampleDb0
      "''orders''" sampleItem "[]" sampleItem "[''count'']" None]
    h sample_serialize sample_evaluate
  show ?thesis by simp
qed

text \<open>
  Claim C10. In the ADD, DELETE and REMOVE paths the error of the condition evaluation is
  dropped: whenever the status is false, with or without an error, the operation reports
  \<^verbatim>\<open>ConditionalCheckFailedException\<close>; and an error always comes with status false. The
  Put and Delete paths return the error of the evaluation itself.
\<close>

theorem C10_update_paths_discard_evaluation_error:
  assumes "hasCondition eval expr"
  shows "(evaluateConditionalExpression env db table m eval expr = Ret (st, Some e, m1)
          \<longrightarrow> st = False)
       \<and> (evaluateConditionalExpression env db table m eval expr = Ret (False, err, m1)
          \<longrightarrow> SpannerRemove env db table m eval expr colsToRemove oldRes
                = Ret ((oldRes, Some (Error ''ConditionalCheckFailedException'')), db))
       \<and> (GetTableConf env table = (tc, None)
          \<and> TableDDL env (ChangeTableNameForSpanner env table) = Some colDDL
          \<and> evaluateConditionalExpression env db table m eval expr = Ret (False, err, m1)
          \<longrightarrow> SpannerAdd env db table m eval expr
                = Ret (([], Some (Error ''ConditionalCheckFailedException'')), db)
            \<and> SpannerDel env db table m eval expr
                = Ret (Some (Error ''ConditionalCheckFailedException''), db))
       \<and> (evaluateConditionalExpression env db table m eval expr = Ret (st, Some e, m1)
          \<longrightarrow> SpannerDelete env db table m eval expr = Ret (Some e, db))
       \<and> (serializeLists (codec env) m [] = Inr tmpMap
          \<and> evaluateConditionalExpression env db table tmpMap eval expr = Ret (st, Some e, m2)
          \<longrightarrow> SpannerPut env db table m eval expr spannerRow = Ret (([], Some e), db))"
  using evaluate_error_status [of env db table m eval expr st e m1]
    remove_false [OF assms, of env db table m err m1 colsToRemove oldRes]
    add_false [OF assms, of env table tc colDDL db m err m1]
    del_false [OF assms, of env table tc colDDL db m err m1]
    delete_error [OF assms, of env db table m st e m1]
    put_error [OF assms, of env m tmpMap db table st e m2 spannerRow]
  by blast

lemma sample_evaluate_unknown:
  "evaluateConditionalExpression sampleEnv sampleDb0 ''nowhere'' sampleItem sampleEval None
     = Ret (False, Some (Error ''ResourceNotFoundException''), sampleItem)"
  by (simp add: evaluateConditionalExpression_def readSnapshot_def sample_defs HasPrefix_def)

lemma sample_evaluate_keyless:
  "evaluateConditionalExpression sampleEnv sampleDb0 ''orders'' sampleKeyless sampleEval None
     = Ret (False, Some (Error ''ValidationException''), sampleKeyless)"
  by (simp add: evaluateConditionalExpression_def readSnapshot_def sample_defs HasPrefix_def
      sampleKeyless_def)

theorem C10_update_paths_discard_evaluation_error_witness:
  "hasCondition sampleEval None
   \<and> evaluateConditionalExpression sampleEnv sampleDb0 ''nowhere'' sampleItem sampleEval None
       = Ret (False, Some (Error ''ResourceNotFoundException''), sampleItem)
   \<and> SpannerRemove sampleEnv sampleDb0 ''nowhere'' sampleItem sampleEval None [''count''] None
       = Ret ((None, Some (Error ''ConditionalCheckFailedException'')), sampleDb0)
   \<and> SpannerDelete sampleEnv sampleDb0 ''nowhere'' sampleItem sampleEval None
       = Ret (Some (Error ''ResourceNotFoundException''), sampleDb0)
   \<and> SpannerPut sampleEnv sampleDb0 ''nowhere'' sampleItem sampleEval None []
       = Ret (([], Some (Error ''ResourceNotFoundException'')), sampleDb0)
   \<and> GetTableConf sampleEnv ''orders'' = (sampleConf, None)
   \<and> TableDDL sampleEnv (ChangeTableNameForSpanner sampleEnv ''orders'') = Some sampleDDL
   \<and> evaluateConditionalExpression sampleEnv sampleDb0 ''orders'' sampleKeyless sampleEval None
       = Ret (False, Some (Error ''ValidationException''), sampleKeyless)
   \<and> SpannerAdd sampleEnv sampleDb0 ''orders'' sampleKeyless sampleEval None
       = Ret (([], Some (Error ''ConditionalCheckFailedException'')), sampleDb0)
   \<and> SpannerDel sampleEnv sampleDb0 ''orders'' sampleKeyless sampleEval None
       = Ret (Some (Error ''ConditionalCheckFailedException''), sampleDb0)"
proof -
  have h: "hasCondition sampleEval None" by (simp add: hasCondition_def sampleEval_def)
  have g: "GetTableConf sampleEnv ''orders'' = (sampleConf, None)"
    "TableDDL sampleEnv (ChangeTableNameForSpanner sampleEnv ''orders'') = Some sampleDDL"
    by (simp_all add: sampleEnv_def HasPrefix_def)
  from C10_update_paths_discard_evaluation_error [OF h, of sampleEnv sampleDb0 "''nowhere''"
      sampleItem False "Error ''ResourceNotFoundException''" sampleItem
      "Some (Error ''ResourceNotFoundException'')" "[''count'']" None
      sampleConf sampleDDL sampleItem sampleItem "[]"]
    C10_update_paths_discard_evaluation_error [OF h, of sampleEnv sampleDb0 "''orders''"
      sampleKeyless False "Error ''ValidationException''" sampleKeyless
      "Some (Error ''ValidationException'')" "[]" None
      sampleConf sampleDDL sampleKeyless sampleKeyless "[]"]
    h g sample_serialize sample_evaluate_unknown sample_evaluate_keyless
  show ?thesis by simp
qed

section \<open>Properties of the query planner\<close>

lemma resolveKeys_keeps:
  assumes "resolveKeys tc q = (q1, pKey, sKey)"
  shows "Limit q1 = Limit q" "OnlyCount q1 = OnlyCount q" "StartFrom q1 = StartFrom q"
    "ProjectionExpression q1 = ProjectionExpression q"
  using assms by (auto simp: resolveKeys_def Let_def split: if_splits)

lemma queryPlan_keeps:
  assumes "queryPlan env q = Inr (q2, tPKey, tSKey, pKey, sKey, L)"
  shows "L = Limit q" "Limit q2 = Limit q + 1" "OnlyCount q2 = OnlyCount q"
    "StartFrom q2 = StartFrom q"
proof -
  obtain tc where g: "GetTableConf env (TableName q) = (tc, None)"
    using assms by (auto simp: queryPlan_def split: prod.splits option.splits)
  obtain q1 pk sk where r: "resolveKeys tc q = (q1, pk, sk)" by (cases "resolveKeys tc q") auto
  from assms g r have e: "q2 = q1\<lparr>Limit := Limit q1 + 1\<rparr>" "L = Limit q1"
    by (auto simp: queryPlan_def)
  from e resolveKeys_keeps [OF r]
  show "L = Limit q" "Limit q2 = Limit q + 1" "OnlyCount q2 = OnlyCount q"
    "StartFrom q2 = StartFrom q" by simp_all
qed

lemma parseOffset_cong: "StartFrom q2 = StartFrom q \<Longrightarrow> parseOffset env q2 = parseOffset env q"
  by (simp add: parseOffset_def)

lemma createSpannerQuery_parts:
  assumes "createSpannerQuery env query tPkey pKey sKey = Ret (stmt, cols, isCount, offset, hash)"
  shows "isCount = OnlyCount query" "offset = snd (parseOffset env query)"
    "cols = fst (parseSpannerColumns env query tPkey pKey sKey)"
    "\<exists>body. SQL stmt = body @ parseLimit query isCount @ fst (parseOffset env query)"
proof -
  obtain wc m where w: "parseSpannerCondition env query pKey sKey = Ret (wc, m)"
    using assms by (auto simp: createSpannerQuery_def split: prod.splits go.splits)
  obtain c cs ic where c: "parseSpannerColumns env query tPkey pKey sKey = (c, cs, ic)"
    by (cases "parseSpannerColumns env query tPkey pKey sKey") auto
  obtain os off where p: "parseOffset env query = (os, off)" by (cases "parseOffset env query") auto
  from c have ic: "ic = OnlyCount query"
    by (auto simp: parseSpannerColumns_def Let_def split: if_splits)
  from assms w c p have s: "SQL stmt = (''SELECT '' @ cs @ '' FROM '' @ parseSpannerTableName env query @ '' '' @
                           wc @ parseSpannerSorting query ic pKey sKey) @
                           parseLimit query ic @ os"
    and i: "isCount = ic" and o: "offset = off" and cc: "cols = c"
    by (auto simp: createSpannerQuery_def Let_def)
  show "isCount = OnlyCount query" using i ic by simp
  show "offset = snd (parseOffset env query)" using o p by simp
  show "cols = fst (parseSpannerColumns env query tPkey pKey sKey)" using cc c by simp
  show "\<exists>body. SQL stmt = body @ parseLimit query isCount @ fst (parseOffset env query)"
    using s i p by auto
qed

lemma sint_succ_nonzero: "0 < sint (L :: 64 word) \<Longrightarrow> L + 1 \<noteq> 0"
proof
  assume a: "0 < sint L" and b: "L + 1 = 0"
  from b have "L = - 1" by (simp add: eq_neg_iff_add_eq_0)
  with a show False by simp
qed

lemma map_of_lastEvaluatedKey:
  "k \<in> set ([pKey, tPKey] @ (if sKey \<noteq> [] then [sKey, tSKey] else [])) \<Longrightarrow>
   map_of (lastEvaluatedKey L offset pKey tPKey sKey tSKey lastRow) k = Some (valueAt lastRow k)"
  by (auto simp: lastEvaluatedKey_def Let_def update_conv')

lemma offset_lastEvaluatedKey:
  "''offset'' \<notin> set ([pKey, tPKey] @ (if sKey \<noteq> [] then [sKey, tSKey] else [])) \<Longrightarrow>
   map_of (lastEvaluatedKey L offset pKey tPKey sKey tSKey lastRow) ''offset''
     = Some (VInt (sint (L + offset)))"
  by (auto simp: lastEvaluatedKey_def Let_def update_conv')

lemma buildResponse_contract:
  assumes "0 < sint L"
  shows "\<exists>finalResp. buildResponse L offset pKey tPKey sKey tSKey resp = Ret finalResp
          \<and> (\<forall>n. map_of finalResp ''Count'' = Some (VInt n) \<and> n < sint L
                \<longrightarrow> map_of finalResp ''LastEvaluatedKey'' = Some VNil)
          \<and> (int (length resp) = sint L + 1 \<longrightarrow>
                map_of finalResp ''Count'' = Some (VInt (sint L))
              \<and> map_of finalResp ''Items'' = Some (VList (map VMap (take (length resp - 1) resp)))
              \<and> map_of finalResp ''LastEvaluatedKey''
                  = Some (VMap (lastEvaluatedKey L offset pKey tPKey sKey tSKey
                                  (resp ! (length resp - 2)))))"
proof (cases "sint L < int (length resp)")
  case True
  with assms have "2 \<le> length resp" by linarith
  with True show ?thesis by (auto simp: buildResponse_def)
next
  case False
  then show ?thesis by (simp add: buildResponse_def)
qed

lemma set_IntersectBy: "set (IntersectBy xs ys) = set xs \<inter> set ys"
  by (induction xs ys rule: IntersectBy.induct) auto

lemma distinct_IntersectBy: "distinct (IntersectBy xs ys)"
  by (induction xs ys rule: IntersectBy.induct) (auto simp: set_IntersectBy)

lemma set_appendMissing: "set (appendMissing cols k) = insert k (set cols)"
  by (auto simp: appendMissing_def)

lemma distinct_appendMissing: "distinct cols \<Longrightarrow> distinct (appendMissing cols k)"
  by (auto simp: appendMissing_def)

text \<open>
  Claim C3, as amended. For every Query that does not count, with a non-empty projection
  \<open>P\<close>: the columns selected are, as a set, the paths of \<open>P\<close> (names substituted) that
  are declared columns of the table, together with the resolved partition key, the
  resolved sort key when there is one, and the table's own partition key when it differs
  from the resolved one. Unknown paths are dropped, no column occurs twice, and the select
  list is made of these columns (without \<^verbatim>\<open>commit_timestamp\<close>).
\<close>

theorem C3_projection_columns:
  assumes "\<not> OnlyCount q" and "ProjectionExpression q \<noteq> []"
  shows "set (fst (parseSpannerColumns env q tPkey pKey sKey)) =
           (set (substitutedProjection (ProjectionExpression q) (ExpressionAttributeNames q))
              \<inter> set (columnsOf env (TableName q)))
           \<union> {pKey} \<union> (if sKey \<noteq> [] then {sKey} else {}) \<union> (if tPkey \<noteq> pKey then {tPkey} else {})
       \<and> distinct (fst (parseSpannerColumns env q tPkey pKey sKey))
       \<and> fst (snd (parseSpannerColumns env q tPkey pKey sKey))
           = colStrOf (ChangeTableNameForSpanner env (TableName q))
               (fst (parseSpannerColumns env q tPkey pKey sKey))"
  using assms
  by (auto simp: parseSpannerColumns_def Let_def getSpannerProjections_def
      substitutedProjection_def set_IntersectBy set_appendMissing distinct_appendMissing
      distinct_IntersectBy)

theorem C3_projection_columns_witness:
  "\<not> OnlyCount sampleProjected \<and> ProjectionExpression sampleProjected \<noteq> []
   \<and> fst (parseSpannerColumns sampleEnv sampleProjected ''id'' ''owner'' ''ts'')
       = [''owner'', ''ts'', ''id'']
   \<and> set [''owner'', ''ts'', ''id''] =
       (set [''owner'', ''nope'', ''ts''] \<inter> set [''id'', ''ts'', ''owner'', ''count'', ''tags''])
       \<union> {''owner''} \<union> {''ts''} \<union> {''id''}"
  using C3_projection_columns [of sampleProjected sampleEnv "''id''" "''owner''" "''ts''"]
  by (simp add: eval_defs sample_defs sampleProjected_def substitutedProjection_def)

text \<open>
  Claim C3 as stated fails for a query that counts: whatever the projection, the only
  column is \<^verbatim>\<open>count\<close> and the select list is \<^verbatim>\<open>COUNT(pKey) AS count\<close>.
\<close>

theorem C3_count_query_counterexample:
  "ProjectionExpression (sampleProjected\<lparr>OnlyCount := True\<rparr>) = ''#o, nope, ts''
   \<and> parseSpannerColumns sampleEnv (sampleProjected\<lparr>OnlyCount := True\<rparr>) ''id'' ''owner'' ''ts''
       = ([''count''], ''COUNT(owner) AS count'', True)"
  by (simp add: eval_defs sample_defs sampleProjected_def)

lemma executedStatement_limit:
  assumes "executedStatement env q = Some stmt"
  shows "\<exists>body. SQL stmt
           = body @ parseLimit (q\<lparr>Limit := Limit q + 1\<rparr>) (OnlyCount q) @ fst (parseOffset env q)"
proof -
  from assms obtain q2 tPKey tSKey pKey sKey L where
    p: "queryPlan env q = Inr (q2, tPKey, tSKey, pKey, sKey, L)"
    by (auto simp: executedStatement_def split: sum.splits)
  from assms p obtain cols isCount offset hash where
    c: "createSpannerQuery env q2 tPKey pKey sKey = Ret (stmt, cols, isCount, offset, hash)"
    by (auto simp: executedStatement_def split: go.splits)
  from createSpannerQuery_parts(4) [OF c] obtain body where
    b: "SQL stmt = body @ parseLimit q2 isCount @ fst (parseOffset env q2)" ..
  have i: "isCount = OnlyCount q"
    using createSpannerQuery_parts(1) [OF c] queryPlan_keeps(3) [OF p] by simp
  have l: "parseLimit q2 (OnlyCount q) = parseLimit (q\<lparr>Limit := Limit q + 1\<rparr>) (OnlyCount q)"
    using queryPlan_keeps(2) [OF p] by (simp add: parseLimit_def)
  have o: "parseOffset env q2 = parseOffset env q"
    using queryPlan_keeps(4) [OF p] by (rule parseOffset_cong)
  have "SQL stmt = body @ parseLimit (q\<lparr>Limit := Limit q + 1\<rparr>) (OnlyCount q)
                     @ fst (parseOffset env q)"
    unfolding b i l o ..
  then show ?thesis ..
qed

lemma scanQuery_fields:
  "Limit (scanQuery env sd) = (if scan_Limit sd = 0 then QueryLimit env else scan_Limit sd)"
  "OnlyCount (scanQuery env sd) = scan_OnlyCount sd"
  "StartFrom (scanQuery env sd) = scan_StartFrom sd"
  by (simp_all add: scanQuery_def)

lemma scan_parseLimit:
  assumes "scan_Limit sd = 0" and "\<not> scan_OnlyCount sd" and "0 < sint (QueryLimit env)"
  shows "parseLimit ((scanQuery env sd)\<lparr>Limit := Limit (scanQuery env sd) + 1\<rparr>)
                    (OnlyCount (scanQuery env sd))
                 = '' LIMIT '' @ FormatInt (sint (QueryLimit env + 1))"
  using assms(1,2) sint_succ_nonzero [OF assms(3)] by (simp add: parseLimit_def scanQuery_fields)

text \<open>
  Claim C5, as amended. For a Scan that does not count and whose caller supplies Limit 0,
  where the configured query limit is greater than 0, the limit is replaced by the
  configured query limit and the statement carries \<^verbatim>\<open>LIMIT query_limit + 1\<close>, the one more
  being the sentinel row (in 64-bit arithmetic).
\<close>

theorem C5_default_limit:
  assumes "scan_Limit sd = 0" and "\<not> scan_OnlyCount sd" and "0 < sint (QueryLimit env)"
    and "executedStatement env (scanQuery env sd) = Some stmt"
  shows "Limit (scanQuery env sd) = QueryLimit env
       \<and> (\<exists>body. SQL stmt =
            body @ '' LIMIT '' @ FormatInt (sint (QueryLimit env + 1))
                 @ fst (parseOffset env (scanQuery env sd)))"
proof
  show "Limit (scanQuery env sd) = QueryLimit env" using assms(1) by (simp add: scanQuery_fields)
next
  from executedStatement_limit [OF assms(4)] obtain body where
    b: "SQL stmt = body @ parseLimit ((scanQuery env sd)\<lparr>Limit := Limit (scanQuery env sd) + 1\<rparr>)
                         (OnlyCount (scanQuery env sd))
                     @ fst (parseOffset env (scanQuery env sd))" ..
  show "\<exists>body. SQL stmt =
            body @ '' LIMIT '' @ FormatInt (sint (QueryLimit env + 1))
                 @ fst (parseOffset env (scanQuery env sd))"
    apply (rule exI [of _ body])
    apply (subst b)
    apply (subst scan_parseLimit [OF assms(1,2,3)])
    apply (simp only: append_assoc)
    done
qed

lemma executedStatement_SQL:
  "map_option SQL (executedStatement env q) =
     (case queryPlan env q of
        Inl err \<Rightarrow> None
      | Inr (q2, tPKey, tSKey, pKey, sKey, L) \<Rightarrow>
          (case parseSpannerCondition env q2 pKey sKey of
             Panic \<Rightarrow> None
           | Ret (wc, m) \<Rightarrow>
               Some (''SELECT '' @ fst (snd (parseSpannerColumns env q2 tPKey pKey sKey)) @ '' FROM '' @
                     parseSpannerTableName env q2 @ '' '' @ wc @
                     parseSpannerSorting q2 (OnlyCount q2) pKey sKey @
                     parseLimit q2 (OnlyCount q2) @ fst (parseOffset env q2))))"
  by (auto simp: executedStatement_def createSpannerQuery_def Let_def parseSpannerColumns_def
      split: sum.splits prod.splits go.splits)

lemma sample_scan_sql:
  "map_option SQL (executedStatement sampleEnv (scanQuery sampleEnv sampleScan))
     = Some (''SELECT '' @ colStrOf ''orders'' [''id'', ''ts'', ''owner'', ''count'', ''tags''] @
             '' FROM orders WHERE ts is not null  ORDER BY ts DESC  LIMIT 101'')"
  by (simp add: executedStatement_SQL eval_defs sample_defs sampleScan_def)

text \<open>
  Claim C5 as stated fails: with a configured query limit of 100, a Scan with Limit 0
  runs a statement with \<^verbatim>\<open>LIMIT 101\<close>.
\<close>

theorem C5_scan_limit_counterexample:
  "scan_Limit sampleScan = 0
   \<and> map_option SQL (executedStatement sampleEnv (scanQuery sampleEnv sampleScan))
       = Some (''SELECT '' @ colStrOf ''orders'' [''id'', ''ts'', ''owner'', ''count'', ''tags''] @
               '' FROM orders WHERE ts is not null  ORDER BY ts DESC  LIMIT 101'')"
  using sample_scan_sql by (simp add: sampleScan_def)

text \<open>
  A Query with Limit 0 reaches \<^verbatim>\<open>parseLimit\<close> with limit 1, since the sentinel is added
  before the test for 0.
\<close>

lemma query_limit_zero_sql:
  "map_option SQL (executedStatement sampleEnv (sampleQuery\<lparr>Limit := 0\<rparr>))
     = Some (''SELECT '' @ colStrOf ''orders'' [''id'', ''ts'', ''owner'', ''count'', ''tags''] @
             '' FROM orders WHERE ts is not null  ORDER BY ts ASC  LIMIT 1'')"
  by (simp add: executedStatement_SQL eval_defs sample_defs)

theorem C5_default_limit_witness:
  "scan_Limit sampleScan = 0 \<and> \<not> scan_OnlyCount sampleScan \<and> 0 < sint (QueryLimit sampleEnv)
   \<and> Limit (scanQuery sampleEnv sampleScan) = 100
   \<and> (\<exists>stmt. executedStatement sampleEnv (scanQuery sampleEnv sampleScan) = Some stmt
        \<and> (\<exists>body. SQL stmt = body @ '' LIMIT 101''))"
proof -
  from sample_scan_sql obtain stmt where
    s: "executedStatement sampleEnv (scanQuery sampleEnv sampleScan) = Some stmt" by auto
  have h: "scan_Limit sampleScan = 0" "\<not> scan_OnlyCount sampleScan"
    "0 < sint (QueryLimit sampleEnv)"
    by (simp_all add: sampleScan_def sampleEnv_def)
  from C5_default_limit [OF h s] h s
  show ?thesis
    by (simp add: sampleScan_def sampleQuery_def sampleEnv_def scanQuery_def parseOffset_def
        FormatInt_def natDigits.simps)
qed

lemma QueryAttributes_plan:
  assumes "queryPlan env q = Inr (q2, tPKey, tSKey, pKey, sKey, L)"
    and "createSpannerQuery env q2 tPKey pKey sKey = Ret (stmt, cols, False, offset, hash)"
    and "ExecuteSpannerQuery env db (TableName q2) cols False stmt = Inr resp"
    and "buildResponse L offset pKey tPKey sKey tSKey resp = Ret finalResp"
  shows "QueryAttributes env db q = Ret (finalResp, hash, None)"
  using assms by (simp add: QueryAttributes_def)

text \<open>
  Claim C2, as amended. For every Query that does not count, with requested limit
  \<open>L > 0\<close> and start offset \<open>O\<close>: the statement ends with \<^verbatim>\<open>LIMIT L+1\<close> (the sum taken
  in 64 bits) and the offset clause. When the response has \<open>N < L\<close> items, its
  \<^verbatim>\<open>LastEvaluatedKey\<close> is nil. When the backend returned \<open>L + 1\<close> rows (the sentinel
  was seen), the response has \<open>L\<close> items, all rows but the last, and its
  \<^verbatim>\<open>LastEvaluatedKey\<close> holds the offset \<open>O + L\<close> (unless a key column is itself named
  \<^verbatim>\<open>offset\<close>) and the key columns of the last returned row.
\<close>

theorem C2_limit_plus_one_and_continuation:
  assumes "\<not> OnlyCount q" and "0 < sint (Limit q)"
    and "queryPlan env q = Inr (q2, tPKey, tSKey, pKey, sKey, L)"
    and "createSpannerQuery env q2 tPKey pKey sKey = Ret (stmt, cols, isCount, offset, hash)"
    and "ExecuteSpannerQuery env db (TableName q2) cols isCount stmt = Inr resp"
  shows "L = Limit q \<and> offset = snd (parseOffset env q)
       \<and> (\<exists>body. SQL stmt = body @ '' LIMIT '' @ FormatInt (sint (Limit q + 1))
                                  @ fst (parseOffset env q))
       \<and> (\<exists>finalResp. QueryAttributes env db q = Ret (finalResp, hash, None)
            \<and> (\<forall>n. map_of finalResp ''Count'' = Some (VInt n) \<and> n < sint L
                  \<longrightarrow> map_of finalResp ''LastEvaluatedKey'' = Some VNil)
            \<and> (int (length resp) = sint L + 1 \<longrightarrow>
                  map_of finalResp ''Count'' = Some (VInt (sint L))
                \<and> map_of finalResp ''Items'' = Some (VList (map VMap (take (length resp - 1) resp)))
                \<and> (\<exists>lek. map_of finalResp ''LastEvaluatedKey'' = Some (VMap lek)
                     \<and> (''offset'' \<notin> set (queryKeys pKey tPKey sKey tSKey)
                          \<longrightarrow> map_of lek ''offset'' = Some (VInt (sint (L + offset))))
                     \<and> (\<forall>k \<in> set (queryKeys pKey tPKey sKey tSKey).
                           map_of lek k = Some (valueAt (resp ! (length resp - 2)) k)))))"
proof -
  note k = queryPlan_keeps [OF assms(3)]
  note c = createSpannerQuery_parts [OF assms(4)]
  have L: "L = Limit q" by (rule k(1))
  have ic: "isCount = False" using c(1) k(3) assms(1) by simp
  have po: "parseOffset env q2 = parseOffset env q" using k(4) by (rule parseOffset_cong)
  have off: "offset = snd (parseOffset env q)" using c(2) po by simp
  have pl: "parseLimit q2 isCount = '' LIMIT '' @ FormatInt (sint (Limit q + 1))"
    using sint_succ_nonzero [OF assms(2)] k(2) ic by (simp add: parseLimit_def)
  from c(4) obtain body where b: "SQL stmt = body @ parseLimit q2 isCount @ fst (parseOffset env q2)" ..
  have sql: "\<exists>body. SQL stmt = body @ '' LIMIT '' @ FormatInt (sint (Limit q + 1))
                                  @ fst (parseOffset env q)"
    apply (rule exI [of _ body])
    apply (subst b)
    apply (subst pl)
    apply (subst po)
    apply (simp only: append_assoc)
    done
  have pos: "0 < sint L" using assms(2) L by simp
  from buildResponse_contract [OF pos, of offset pKey tPKey sKey tSKey resp]
  obtain finalResp where
    r: "buildResponse L offset pKey tPKey sKey tSKey resp = Ret finalResp"
    and n: "\<forall>n. map_of finalResp ''Count'' = Some (VInt n) \<and> n < sint L
                  \<longrightarrow> map_of finalResp ''LastEvaluatedKey'' = Some VNil"
    and s: "int (length resp) = sint L + 1 \<longrightarrow>
                map_of finalResp ''Count'' = Some (VInt (sint L))
              \<and> map_of finalResp ''Items'' = Some (VList (map VMap (take (length resp - 1) resp)))
              \<and> map_of finalResp ''LastEvaluatedKey''
                  = Some (VMap (lastEvaluatedKey L offset pKey tPKey sKey tSKey
                                  (resp ! (length resp - 2))))"
    by blast
  have qa: "QueryAttributes env db q = Ret (finalResp, hash, None)"
    using QueryAttributes_plan [OF assms(3) assms(4) [unfolded ic] assms(5) [unfolded ic] r] .
  have lek: "int (length resp) = sint L + 1 \<longrightarrow>
                  map_of finalResp ''Count'' = Some (VInt (sint L))
                \<and> map_of finalResp ''Items'' = Some (VList (map VMap (take (length resp - 1) resp)))
                \<and> (\<exists>lek. map_of finalResp ''LastEvaluatedKey'' = Some (VMap lek)
                     \<and> (''offset'' \<notin> set (queryKeys pKey tPKey sKey tSKey)
                          \<longrightarrow> map_of lek ''offset'' = Some (VInt (sint (L + offset))))
                     \<and> (\<forall>k \<in> set (queryKeys pKey tPKey sKey tSKey).
                           map_of lek k = Some (valueAt (resp ! (length resp - 2)) k)))"
  proof (intro impI conjI)
    assume a: "int (length resp) = sint L + 1"
    with s show "map_of finalResp ''Count'' = Some (VInt (sint L))" by blast
    from a s show "map_of finalResp ''Items''
                     = Some (VList (map VMap (take (length resp - 1) resp)))" by blast
    from a s have e: "map_of finalResp ''LastEvaluatedKey''
                  = Some (VMap (lastEvaluatedKey L offset pKey tPKey sKey tSKey
                                  (resp ! (length resp - 2))))" by blast
    show "\<exists>lek. map_of finalResp ''LastEvaluatedKey'' = Some (VMap lek)
                     \<and> (''offset'' \<notin> set (queryKeys pKey tPKey sKey tSKey)
                          \<longrightarrow> map_of lek ''offset'' = Some (VInt (sint (L + offset))))
                     \<and> (\<forall>k \<in> set (queryKeys pKey tPKey sKey tSKey).
                           map_of lek k = Some (valueAt (resp ! (length resp - 2)) k))"
      apply (rule exI [of _ "lastEvaluatedKey L offset pKey tPKey sKey tSKey (resp ! (length resp - 2))"])
      apply (intro conjI impI ballI)
        apply (rule e)
       apply (rule offset_lastEvaluatedKey)
       apply (simp add: queryKeys_def)
      apply (rule map_of_lastEvaluatedKey)
      apply (simp add: queryKeys_def)
      done
  qed
  from L off sql qa n lek show ?thesis by blast
qed


lemma sample_plan:
  "queryPlan sampleEnv sampleLimited
     = Inr (sampleLimited\<lparr>Limit := 2\<rparr>, ''id'', ''ts'', ''id'', ''ts'', 1)"
  by (simp add: queryPlan_def resolveKeys_def sample_defs sampleLimited_def)

lemma sample_statement:
  "\<exists>stmt cols offset hash.
     createSpannerQuery sampleEnv (sampleLimited\<lparr>Limit := 2\<rparr>) ''id'' ''id'' ''ts''
       = Ret (stmt, cols, False, offset, hash)"
  by (simp add: createSpannerQuery_def plan_eval_defs sample_defs sampleLimited_def)

lemma sample_execute:
  "ExecuteSpannerQuery sampleEnv sampleDb2 ''orders'' cols False stmt = Inr sampleRows"
  by (simp add: ExecuteSpannerQuery_def parse_defs sample_defs sampleRows_def)

theorem C2_limit_plus_one_and_continuation_witness:
  "\<not> OnlyCount sampleLimited \<and> 0 < sint (Limit sampleLimited)
   \<and> queryPlan sampleEnv sampleLimited
       = Inr (sampleLimited\<lparr>Limit := 2\<rparr>, ''id'', ''ts'', ''id'', ''ts'', 1)
   \<and> (\<exists>stmt cols offset hash.
         createSpannerQuery sampleEnv (sampleLimited\<lparr>Limit := 2\<rparr>) ''id'' ''id'' ''ts''
           = Ret (stmt, cols, False, offset, hash)
       \<and> ExecuteSpannerQuery sampleEnv sampleDb2 ''orders'' cols False stmt = Inr sampleRows
       \<and> (\<exists>body. SQL stmt = body @ '' LIMIT 2'')
       \<and> (\<exists>finalResp. QueryAttributes sampleEnv sampleDb2 sampleLimited = Ret (finalResp, hash, None)
            \<and> map_of finalResp ''Count'' = Some (VInt 1)
            \<and> (\<exists>lek. map_of finalResp ''LastEvaluatedKey'' = Some (VMap lek)
                 \<and> map_of lek ''offset'' = Some (VInt 1)
                 \<and> map_of lek ''id'' = Some (VStr ''1'')
                 \<and> map_of lek ''ts'' = Some (VStr ''t1''))))"
proof -
  have h1: "\<not> OnlyCount sampleLimited" by (simp add: sampleLimited_def sampleQuery_def)
  have h2: "0 < sint (Limit sampleLimited)" by (simp add: sampleLimited_def sampleQuery_def)
  from sample_statement obtain stmt cols offset hash where
    h4: "createSpannerQuery sampleEnv (sampleLimited\<lparr>Limit := 2\<rparr>) ''id'' ''id'' ''ts''
           = Ret (stmt, cols, False, offset, hash)" by blast
  have h5: "ExecuteSpannerQuery sampleEnv sampleDb2 (TableName (sampleLimited\<lparr>Limit := 2\<rparr>))
              cols False stmt = Inr sampleRows"
    using sample_execute [of cols stmt] by (simp add: sampleLimited_def sampleQuery_def)
  have h5': "ExecuteSpannerQuery sampleEnv sampleDb2 ''orders'' cols False stmt = Inr sampleRows"
    by (rule sample_execute)
  note t = C2_limit_plus_one_and_continuation [OF h1 h2 sample_plan h4 h5]
  from t have o: "offset = 0"
    by (simp add: parseOffset_def sampleLimited_def sampleQuery_def)
  from t obtain body where "SQL stmt = body @ '' LIMIT '' @ FormatInt (sint (Limit sampleLimited + 1))
                                  @ fst (parseOffset sampleEnv sampleLimited)" by blast
  then have b: "SQL stmt = body @ '' LIMIT 2''"
    by (simp add: parseOffset_def sampleLimited_def sampleQuery_def FormatInt_def natDigits.simps)
  from t obtain finalResp where
    q: "QueryAttributes sampleEnv sampleDb2 sampleLimited = Ret (finalResp, hash, None)"
    and s: "int (length sampleRows) = sint (1 :: 64 word) + 1 \<longrightarrow>
              map_of finalResp ''Count'' = Some (VInt (sint (1 :: 64 word)))
            \<and> (\<exists>lek. map_of finalResp ''LastEvaluatedKey'' = Some (VMap lek)
                 \<and> (''offset'' \<notin> set (queryKeys ''id'' ''id'' ''ts'' ''ts'')
                      \<longrightarrow> map_of lek ''offset'' = Some (VInt (sint (1 + offset))))
                 \<and> (\<forall>k \<in> set (queryKeys ''id'' ''id'' ''ts'' ''ts'').
                       map_of lek k = Some (valueAt (sampleRows ! (length sampleRows - 2)) k)))"
    by blast
  have len: "int (length sampleRows) = sint (1 :: 64 word) + 1" by (simp add: sampleRows_def)
  from s len obtain lek where
    c: "map_of finalResp ''Count'' = Some (VInt (sint (1 :: 64 word)))"
    and l: "map_of finalResp ''LastEvaluatedKey'' = Some (VMap lek)"
    and lo: "''offset'' \<notin> set (queryKeys ''id'' ''id'' ''ts'' ''ts'')
               \<longrightarrow> map_of lek ''offset'' = Some (VInt (sint (1 + offset)))"
    and lk: "\<forall>k \<in> set (queryKeys ''id'' ''id'' ''ts'' ''ts'').
               map_of lek k = Some (valueAt (sampleRows ! (length sampleRows - 2)) k)"
    by blast
  have c': "map_of finalResp ''Count'' = Some (VInt 1)" using c by simp
  have lo': "map_of lek ''offset'' = Some (VInt 1)" using lo o by (simp add: queryKeys_def)
  have li: "map_of lek ''id'' = Some (VStr ''1'')"
    using lk by (simp add: queryKeys_def sampleRows_def valueAt_def)
  have lt: "map_of lek ''ts'' = Some (VStr ''t1'')"
    using lk by (simp add: queryKeys_def sampleRows_def valueAt_def)
  from h1 h2 sample_plan h4 h5' b q c' l lo' li lt show ?thesis by blast
qed

text \<open>
  Claim C2 as stated fails for a query that counts: with limit 2 the statement has no
  \<^verbatim>\<open>LIMIT\<close> at all.
\<close>

theorem C2_count_query_counterexample:
  "0 < sint (Limit (sampleQuery\<lparr>OnlyCount := True\<rparr>))
   \<and> map_option SQL (executedStatement sampleEnv (sampleQuery\<lparr>OnlyCount := True\<rparr>))
       = Some ''SELECT COUNT(id) AS count FROM orders WHERE ts is not null  ''
   \<and> \<not> Contains ''SELECT COUNT(id) AS count FROM orders WHERE ts is not null  '' ''LIMIT''"
  by (simp add: executedStatement_SQL eval_defs sample_defs)

section \<open>Properties of the string column and of the placeholders\<close>

text \<open>
  Claim C6, as amended. For a column with type tag S that holds a string, the value
  returned is that string unless the string ends with \<^verbatim>\<open>=\<close> and \<^verbatim>\<open>utils.IsValidBase64\<close>
  accepts it. In that case the column is decoded a second time by \<^verbatim>\<open>utils.ParseBytes\<close>:
  the value returned is what \<^verbatim>\<open>ParseBytes\<close> gives for the column, and an error of
  \<^verbatim>\<open>ParseBytes\<close> is the error of the column.
\<close>

theorem C6_string_column_decoding:
  assumes "Column_NullString r idx = (Some s, err)" and "\<not> fatal err"
  shows "(\<not> (HasSuffix s ''='' \<and> IsValidBase64 cd s) \<longrightarrow>
            parseStringColumn cd r idx col row = (AList.update col (VStr s) row, None))
       \<and> (HasSuffix s ''='' \<and> IsValidBase64 cd s \<and> ParseBytes cd r idx col = (res, None) \<longrightarrow>
            parseStringColumn cd r idx col row = (AList.update col (valueAt res col) row, None))
       \<and> (HasSuffix s ''='' \<and> IsValidBase64 cd s \<and> ParseBytes cd r idx col = (res, Some e) \<longrightarrow>
            snd (parseStringColumn cd r idx col row) = Some e)"
  using assms by (simp add: parseStringColumn_def valueAt_def)

theorem C6_string_column_decoding_witness:
  "Column_NullString [(''owner'', CString (Some ''ann'') :: int cell)] 0 = (Some ''ann'', None)
   \<and> \<not> fatal None
   \<and> \<not> (HasSuffix ''ann'' ''='' \<and> IsValidBase64 sampleCodec ''ann'')
   \<and> parseStringColumn sampleCodec [(''owner'', CString (Some ''ann''))] 0 ''owner'' []
       = ([(''owner'', VStr ''ann'')], None)
   \<and> Column_NullString [(''owner'', CString (Some ''YQ=='') :: int cell)] 0 = (Some ''YQ=='', None)
   \<and> HasSuffix ''YQ=='' ''='' \<and> IsValidBase64 sampleCodec ''YQ==''
   \<and> ParseBytes sampleCodec [(''owner'', CString (Some ''YQ==''))] 0 ''owner''
       = ([(''owner'', VBytes ''a'')], None)
   \<and> parseStringColumn sampleCodec [(''owner'', CString (Some ''YQ==''))] 0 ''owner'' []
       = ([(''owner'', VBytes ''a'')], None)"
  using C6_string_column_decoding [of "[(''owner'', CString (Some ''ann''))]" 0 "''ann''" None
      sampleCodec "''owner''" "[]" "[]" "Error []"]
    C6_string_column_decoding [of "[(''owner'', CString (Some ''YQ==''))]" 0 "''YQ==''" None
      sampleCodec "''owner''" "[]" "[(''owner'', VBytes ''a'')]" "Error []"]
  by (simp add: fatal_def HasSuffix_def sampleCodec_def is_b64_def valueAt_def)

text \<open>
  Claim C6 as stated fails: the column \<^verbatim>\<open>owner\<close> has type tag S and holds the string
  \<^verbatim>\<open>YQ==\<close>; the row that \<^verbatim>\<open>parseRow\<close> returns holds bytes under \<^verbatim>\<open>owner\<close>, not that
  string.
\<close>

theorem C6_base64_string_counterexample:
  "map_of sampleDDL ''owner'' = Some ''S''
   \<and> parseRow sampleCodec (Some [(''id'', CString (Some ''1'')), (''owner'', CString (Some ''YQ==''))])
        sampleDDL
       = Inr ([(''id'', VStr ''1''), (''owner'', VBytes ''a'')], Some [])"
  by (simp add: parse_defs sample_defs is_b64_def)

text \<open>
  Claim C7, at an input where the code misses it. The key condition refers to the
  placeholders \<^verbatim>\<open>:id\<close> and \<^verbatim>\<open>:id2\<close>. When the value map is ranged over with \<^verbatim>\<open>:id\<close>
  first, replacing \<^verbatim>\<open>:id\<close> everywhere also rewrites the head of \<^verbatim>\<open>:id2\<close>; then
  \<^verbatim>\<open>:id2\<close> no longer occurs, it is bound to no parameter, and the clause names the
  parameter \<^verbatim>\<open>@rangeExp12\<close>, which has no value.
\<close>

theorem C7_placeholder_prefix_evaluation:
  "parseSpannerCondition sampleEnv
     (sampleQuery\<lparr>RangeExp := ''id = :id AND ts > :id2'',
                  RangeValMap := [('':id'', VStr ''1''), ('':id2'', VStr ''t0'')]\<rparr>) ''id'' ''ts''
   = Ret (''WHERE ts is not null  AND id = @rangeExp1 AND ts > @rangeExp12'',
          [(''rangeExp1'', VStr ''1'')])"
  by (simp add: eval_defs sample_defs)

text \<open>With the map ranged over in the other order both placeholders are bound.\<close>

lemma placeholder_other_order:
  "parseSpannerCondition sampleEnv
     (sampleQuery\<lparr>RangeExp := ''id = :id AND ts > :id2'',
                  RangeValMap := [('':id2'', VStr ''t0''), ('':id'', VStr ''1'')]\<rparr>) ''id'' ''ts''
   = Ret (''WHERE ts is not null  AND id = @rangeExp2 AND ts > @rangeExp1'',
          [(''rangeExp1'', VStr ''t0''), (''rangeExp2'', VStr ''1'')])"
  by (simp add: eval_defs sample_defs)

section \<open>Properties of REMOVE\<close>

lemma deleteAll_Cons: "deleteAll cols (AList.delete t m) = deleteAll (t # cols) m"
  by (auto simp: deleteAll_def AList.delete_eq intro: filter_cong)

lemma deleteAll_idem: "deleteAll cols (deleteAll cols m) = deleteAll cols m"
  by (simp add: deleteAll_def)

lemma removeLoop_columns:
  assumes "\<forall>t \<in> set cols. \<not> isListTarget t"
  shows "removeLoop env cols (Some old) tmpMap
           = (Some (filter (\<lambda>(k, v). k \<notin> set cols) old), tmpMap)"
  using assms
proof (induction cols arbitrary: old)
  case Nil
  then show ?case by simp
next
  case (Cons t cols)
  have "filter (\<lambda>(k, v). k \<notin> set cols) (AList.delete t old)
          = filter (\<lambda>(k, v). k \<notin> set (t # cols)) old"
    by (auto simp: AList.delete_eq intro: filter_cong)
  with Cons show ?case by simp
qed

lemma removeLoop_nil:
  assumes "\<forall>t \<in> set cols. \<not> isListTarget t"
  shows "removeLoop env cols None tmpMap = (None, tmpMap)"
  using assms by (induction cols) simp_all

lemma respLoop_columns:
  assumes "\<forall>t \<in> set cols. \<not> isListTarget t"
  shows "respLoop env cols old updateResp
           = (None, old, filter (\<lambda>(k, v). k \<notin> set cols) updateResp)"
  using assms
proof (induction cols arbitrary: updateResp)
  case Nil
  then show ?case by simp
next
  case (Cons t cols)
  have "filter (\<lambda>(k, v). k \<notin> set cols) (AList.delete t updateResp)
          = filter (\<lambda>(k, v). k \<notin> set (t # cols)) updateResp"
    by (auto simp: AList.delete_eq intro: filter_cong)
  with Cons show ?case by simp
qed

lemma SpannerRemove_txn_columns:
  assumes "\<forall>t \<in> set cols. \<not> isListTarget t"
    and "SpannerRemove_txn env table m eval expr cols (Some old) db = Ret (o1, muts, None)"
  shows "o1 = Some (deleteAll cols old)
       \<and> (\<exists>tmpMap'. serializeLists (codec env) m m = Inr tmpMap'
             \<and> muts = [spanner_InsertOrUpdateMap (ChangeTableNameForSpanner env table) tmpMap'])"
  using assms(2)
  by (auto simp: SpannerRemove_txn_def removeLoop_columns [OF assms(1)] deleteAll_def
      split: go.splits prod.splits if_splits sum.splits)


lemma SpannerRemove_txn_cases:
  assumes "\<forall>t \<in> set cols. \<not> isListTarget t"
    and "SpannerRemove_txn env table m eval expr cols (Some old) db = Ret (o1, muts, err)"
  shows "(err \<noteq> None \<and> muts = [])
       \<or> (err = None \<and> o1 = Some (deleteAll cols old)
           \<and> (\<exists>tmpMap'. serializeLists (codec env) m m = Inr tmpMap'
                 \<and> muts = [spanner_InsertOrUpdateMap (ChangeTableNameForSpanner env table) tmpMap']))"
  using assms(2)
  by (auto simp: SpannerRemove_txn_def removeLoop_columns [OF assms(1)] deleteAll_def
      split: go.splits prod.splits if_splits sum.splits)

lemma SpannerRemove_columns:
  assumes "\<forall>t \<in> set cols. \<not> isListTarget t"
    and "SpannerRemove env db table m eval expr cols (Some old) = Ret ((o1, err), db1)"
  shows "(err \<noteq> None \<and> db1 = db)
       \<or> (o1 = Some (deleteAll cols old)
           \<and> (\<exists>tmpMap'. serializeLists (codec env) m m = Inr tmpMap'
                 \<and> Commit env db [spanner_InsertOrUpdateMap (ChangeTableNameForSpanner env table) tmpMap']
                     = (db1, err)))"
proof -
  from assms(2) obtain ores muts terr where
    t: "SpannerRemove_txn env table m eval expr cols (Some old) db = Ret (ores, muts, terr)"
    by (auto simp: SpannerRemove_def ReadWriteTransaction_def split: go.splits prod.splits)
  show ?thesis
  proof (cases terr)
    case (Some e)
    with assms(2) t show ?thesis by (auto simp: SpannerRemove_def ReadWriteTransaction_def)
  next
    case None
    with SpannerRemove_txn_cases [OF assms(1) t] obtain tmpMap' where
      o: "ores = Some (deleteAll cols old)" and s: "serializeLists (codec env) m m = Inr tmpMap'"
      and m: "muts = [spanner_InsertOrUpdateMap (ChangeTableNameForSpanner env table) tmpMap']"
      by auto
    from assms(2) t None o m have "o1 = Some (deleteAll cols old)"
      and "Commit env db [spanner_InsertOrUpdateMap (ChangeTableNameForSpanner env table) tmpMap']
             = (db1, err)"
      by (auto simp: SpannerRemove_def ReadWriteTransaction_def split: prod.splits)
    with s show ?thesis by blast
  qed
qed

lemma SpannerRemove_nil:
  assumes "\<forall>t \<in> set cols. \<not> isListTarget t"
    and "SpannerRemove env db table m eval expr cols None = Ret ((o1, err), db1)"
  shows "o1 = None"
  using assms(2)
  by (auto simp: SpannerRemove_def ReadWriteTransaction_def SpannerRemove_txn_def
      removeLoop_nil [OF assms(1)] split: go.splits prod.splits if_splits sum.splits option.splits)

lemma Remove_columns:
  assumes "\<forall>t \<in> set (Split (ReplaceAll actionValue '' '' []) '',''). \<not> isListTarget t"
    and "Remove env db tableName ua actionValue expr (Some old) = Ret (res, o1, db1)"
  shows "((\<exists>err. res = (None, Some err)) \<and> db1 = db)
       \<or> (\<exists>tc e tmpMap' cerr.
             GetTableConf env tableName = (tc, None)
           \<and> CreateConditionExpression env (upd_ConditionExpression ua)
                (upd_ExpressionAttributeMap ua) = (e, None)
           \<and> serializeLists (codec env) (upd_PrimaryKeyMap ua) (upd_PrimaryKeyMap ua) = Inr tmpMap'
           \<and> Commit env db [spanner_InsertOrUpdateMap
                               (ChangeTableNameForSpanner env (ActualTable tc)) tmpMap']
                = (db1, cerr)
           \<and> (case cerr of
                 None \<Rightarrow> res = (Some (deleteAll (Split (ReplaceAll actionValue '' '' []) '','') old), None)
               | Some err \<Rightarrow> res = (None, Some err)))"
proof -
  let ?cols = "Split (ReplaceAll actionValue '' '' []) '',''"
  obtain tc gerr where g: "GetTableConf env tableName = (tc, gerr)"
    by (cases "GetTableConf env tableName")
  obtain e eerr where c: "CreateConditionExpression env (upd_ConditionExpression ua)
                (upd_ExpressionAttributeMap ua) = (e, eerr)"
    by (cases "CreateConditionExpression env (upd_ConditionExpression ua)
                (upd_ExpressionAttributeMap ua)")
  show ?thesis
  proof (cases gerr)
    case (Some err)
    with assms(2) g show ?thesis by (auto simp: Remove_def Let_def)
  next
    case gn: None
    show ?thesis
    proof (cases eerr)
      case (Some err)
      with assms(2) g gn c show ?thesis by (auto simp: Remove_def Let_def)
    next
      case en: None
      from assms(2) g gn c en obtain ores serr d where
        r: "SpannerRemove env db (ActualTable tc) (upd_PrimaryKeyMap ua) e expr ?cols (Some old)
              = Ret ((ores, serr), d)"
        by (auto simp: Remove_def Let_def split: go.splits prod.splits)
      from SpannerRemove_columns [OF assms(1) r]
      consider (failed) "serr \<noteq> None" "d = db"
        | (wrote) tmpMap' where "ores = Some (deleteAll ?cols old)"
            "serializeLists (codec env) (upd_PrimaryKeyMap ua) (upd_PrimaryKeyMap ua) = Inr tmpMap'"
            "Commit env db [spanner_InsertOrUpdateMap
                               (ChangeTableNameForSpanner env (ActualTable tc)) tmpMap']
                = (d, serr)"
        by blast
      then show ?thesis
      proof cases
        case failed
        with assms(2) g gn c en r show ?thesis by (auto simp: Remove_def Let_def)
      next
        case wrote
        show ?thesis
        proof (cases serr)
          case (Some err)
          with assms(2) g gn c en r wrote have "res = (None, Some err)" "db1 = d"
            by (auto simp: Remove_def Let_def)
          with g gn c en wrote Some show ?thesis by auto
        next
          case None
          with assms(2) g gn c en r wrote
          have "res = (Some (deleteAll ?cols (deleteAll ?cols old)), None)" "db1 = d"
            by (auto simp: Remove_def Let_def respLoop_columns [OF assms(1)] deleteAll_def)
          with g gn c en wrote None show ?thesis by (auto simp: deleteAll_idem)
        qed
      qed
    qed
  qed
qed


lemma Remove_nil:
  assumes "\<forall>t \<in> set (Split (ReplaceAll actionValue '' '' []) '',''). \<not> isListTarget t"
    and "Remove env db tableName ua actionValue expr None = Ret (res, o1, db1)"
  shows "fst res = None"
proof -
  let ?cols = "Split (ReplaceAll actionValue '' '' []) '',''"
  obtain tc gerr where g: "GetTableConf env tableName = (tc, gerr)"
    by (cases "GetTableConf env tableName")
  obtain e eerr where c: "CreateConditionExpression env (upd_ConditionExpression ua)
                (upd_ExpressionAttributeMap ua) = (e, eerr)"
    by (cases "CreateConditionExpression env (upd_ConditionExpression ua)
                (upd_ExpressionAttributeMap ua)")
  show ?thesis
  proof (cases "gerr = None \<and> eerr = None")
    case False
    with assms(2) g c show ?thesis by (auto simp: Remove_def Let_def split: option.splits)
  next
    case True
    with assms(2) g c obtain ores serr d where
      r: "SpannerRemove env db (ActualTable tc) (upd_PrimaryKeyMap ua) e expr ?cols None
            = Ret ((ores, serr), d)"
      by (auto simp: Remove_def Let_def split: go.splits prod.splits)
    from SpannerRemove_nil [OF assms(1) r] have "ores = None" .
    with assms(2) g c True r show ?thesis
      by (auto simp: Remove_def Let_def split: option.splits)
  qed
qed

text \<open>
  Claim C8, as amended. For a REMOVE whose targets are all whole columns, applying it
  again to its own post-image gives that post-image again, and the second application
  either leaves the database as it is (it was rejected) or commits the very mutation the
  first one committed. A REMOVE with a list index is not idempotent.
\<close>

theorem C8_column_remove_idempotent:
  assumes "\<forall>t \<in> set (Split (ReplaceAll actionValue '' '' []) '',''). \<not> isListTarget t"
    and "Remove env db tableName ua actionValue expr oldRes = Ret ((Some post, None), o1, db1)"
    and "Remove env db1 tableName ua actionValue expr (Some post) = Ret (res2, o2, db2)"
  shows "(\<forall>post2. res2 = (Some post2, None) \<longrightarrow> post2 = post)
       \<and> (db2 = db1 \<or> (\<exists>muts. db1 = fst (Commit env db muts) \<and> db2 = fst (Commit env db1 muts)))"
proof -
  let ?cols = "Split (ReplaceAll actionValue '' '' []) '',''"
  obtain old where old: "oldRes = Some old"
    using Remove_nil [OF assms(1), of env db tableName ua expr "(Some post, None)" o1 db1] assms(2)
    by (cases oldRes) auto
  from Remove_columns [OF assms(1) assms(2) [unfolded old]]
  obtain tc e tmpMap' where
    g: "GetTableConf env tableName = (tc, None)"
    and c: "CreateConditionExpression env (upd_ConditionExpression ua)
                (upd_ExpressionAttributeMap ua) = (e, None)"
    and s: "serializeLists (codec env) (upd_PrimaryKeyMap ua) (upd_PrimaryKeyMap ua) = Inr tmpMap'"
    and w: "Commit env db [spanner_InsertOrUpdateMap
                               (ChangeTableNameForSpanner env (ActualTable tc)) tmpMap']
                = (db1, None)"
    and p: "post = deleteAll ?cols old"
    by (auto split: option.splits)
  from Remove_columns [OF assms(1) assms(3)]
  consider (failed) "\<exists>err. res2 = (None, Some err)" "db2 = db1"
    | (wrote) cerr where
        "Commit env db1 [spanner_InsertOrUpdateMap
                               (ChangeTableNameForSpanner env (ActualTable tc)) tmpMap']
                = (db2, cerr)"
        "case cerr of None \<Rightarrow> res2 = (Some (deleteAll ?cols post), None)
                    | Some err \<Rightarrow> res2 = (None, Some err)"
    using g c s by auto
  then show ?thesis
  proof cases
    case failed
    then show ?thesis by auto
  next
    case wrote
    have i: "deleteAll ?cols post = post" unfolding p by (rule deleteAll_idem)
    from wrote(2) i have "\<forall>post2. res2 = (Some post2, None) \<longrightarrow> post2 = post"
      by (auto split: option.splits)
    moreover from w wrote(1) have
      "\<exists>muts. db1 = fst (Commit env db muts) \<and> db2 = fst (Commit env db1 muts)"
      by (intro exI [of _ "[spanner_InsertOrUpdateMap
                               (ChangeTableNameForSpanner env (ActualTable tc)) tmpMap']"]) simp
    ultimately show ?thesis by blast
  qed
qed

theorem C8_column_remove_idempotent_witness:
  "Split (ReplaceAll ''count'' '' '' []) '','' = [''count''] \<and> \<not> isListTarget ''count''
   \<and> Remove sampleEnv sampleDb0 ''orders'' sampleUpdate ''count'' None
        (Some [(''id'', VStr ''1''), (''ts'', VStr ''t1''), (''owner'', VNil), (''count'', VFloat 10)])
       = Ret ((Some [(''id'', VStr ''1''), (''ts'', VStr ''t1''), (''owner'', VNil)], None),
              Some [(''id'', VStr ''1''), (''ts'', VStr ''t1''), (''owner'', VNil)], sampleDb0)
   \<and> Remove sampleEnv sampleDb0 ''orders'' sampleUpdate ''count'' None
        (Some [(''id'', VStr ''1''), (''ts'', VStr ''t1''), (''owner'', VNil)])
       = Ret ((Some [(''id'', VStr ''1''), (''ts'', VStr ''t1''), (''owner'', VNil)], None),
              Some [(''id'', VStr ''1''), (''ts'', VStr ''t1''), (''owner'', VNil)], sampleDb0)"
proof -
  have c: "\<forall>t \<in> set (Split (ReplaceAll ''count'' '' '' []) '',''). \<not> isListTarget t"
    by (simp add: Split_def HasPrefix_def isListTarget_def)
  have f: "Remove sampleEnv sampleDb0 ''orders'' sampleUpdate ''count'' None
        (Some [(''id'', VStr ''1''), (''ts'', VStr ''t1''), (''owner'', VNil), (''count'', VFloat 10)])
       = Ret ((Some [(''id'', VStr ''1''), (''ts'', VStr ''t1''), (''owner'', VNil)], None),
              Some [(''id'', VStr ''1''), (''ts'', VStr ''t1''), (''owner'', VNil)], sampleDb0)"
    by (simp add: remove_defs sample_defs)
  obtain res2 o2 db2 where
    s: "Remove sampleEnv sampleDb0 ''orders'' sampleUpdate ''count'' None
          (Some [(''id'', VStr ''1''), (''ts'', VStr ''t1''), (''owner'', VNil)])
        = Ret (res2, o2, db2)"
    and v: "res2 = (Some [(''id'', VStr ''1''), (''ts'', VStr ''t1''), (''owner'', VNil)], None)"
       "o2 = Some [(''id'', VStr ''1''), (''ts'', VStr ''t1''), (''owner'', VNil)]"
       "db2 = sampleDb0"
    by (simp add: remove_defs sample_defs)
  have l: "Split (ReplaceAll ''count'' '' '' []) '','' = [''count''] \<and> \<not> isListTarget ''count''"
    by (simp add: Split_def HasPrefix_def isListTarget_def)
  from C8_column_remove_idempotent [OF c f s] l f s v show ?thesis by simp
qed

text \<open>
  Claim C8 as stated fails for a list index: \<^verbatim>\<open>REMOVE tags[0]\<close> on the list 1, 2, 3
  leaves 2, 3 (post-image and column written); applied to that post-image it leaves 3.
\<close>

theorem C8_list_index_counterexample:
  "Remove sampleEnv sampleDb0 ''orders'' sampleUpdate ''tags[0]'' None (Some sampleTagged)
     = Ret ((Some [(''id'', VStr ''1''), (''ts'', VStr ''t1''),
                   (''tags'', VList [VFloat 2, VFloat 3])], None),
            Some [(''id'', VStr ''1''), (''ts'', VStr ''t1''), (''tags'', VList [VFloat 3])],
            [((''orders'', [VStr ''1'', VStr ''t1'']),
              sampleOrder @ [(''tags'', CString (Some ''[2,3]''))])])
   \<and> Remove sampleEnv
        [((''orders'', [VStr ''1'', VStr ''t1'']),
          sampleOrder @ [(''tags'', CString (Some ''[2,3]''))])]
        ''orders'' sampleUpdate ''tags[0]'' None
        (Some [(''id'', VStr ''1''), (''ts'', VStr ''t1''), (''tags'', VList [VFloat 2, VFloat 3])])
     = Ret ((Some [(''id'', VStr ''1''), (''ts'', VStr ''t1''), (''tags'', VList [VFloat 3])], None),
            Some [(''id'', VStr ''1''), (''ts'', VStr ''t1''), (''tags'', VList [])],
            [((''orders'', [VStr ''1'', VStr ''t1'']),
              sampleOrder @ [(''tags'', CString (Some ''[3]''))])])"
  by (simp add: remove_defs sample_defs)

end
